theory Spec2Isabelle
  imports Main "HOL-Library.Word"
begin

section \<open>Data model (types.ts)\<close>

text \<open>
  A JavaScript string is a sequence of UTF-16 code units. The regular expressions of the
  forms work on code units (no \<^verbatim>\<open>u\<close> flag), so a string is a list of 16-bit words.
  \<open>js\<close> reads an ASCII literal as such a string.
\<close>

type_synonym jschar = "16 word"
type_synonym jsstring = "jschar list"

definition js :: "string \<Rightarrow> jsstring" where
  "js s = map of_char s"

text \<open>
  \<^verbatim>\<open>export type CampaignStatus = "Activa" | "Finalizada" | "En espera"\<close>
\<close>

datatype CampaignStatus = Activa | Finalizada | En_espera

record person =
  p_id :: jsstring
  p_name :: jsstring
  lastName :: jsstring
  phone :: jsstring

record campaign =
  c_id :: jsstring
  c_name :: jsstring
  createdAt :: jsstring
  startDate :: jsstring
  endDate :: jsstring
  recordingStatus :: bool
  status :: CampaignStatus
  people :: "person list"

section \<open>The store (utils/index.ts)\<close>

text \<open>
  The campaigns live under one key of localStorage, as JSON. The key is absent
  (\<open>None\<close>) until the first save; \<open>getCampaigns\<close> reads an absent key as the
  empty list.
\<close>

type_synonym store = "campaign list option"

definition saveCampaigns :: "campaign list \<Rightarrow> store \<Rightarrow> store" where
  "saveCampaigns campaigns st = Some campaigns"

definition getCampaigns :: "store \<Rightarrow> campaign list" where
  "getCampaigns st = (case st of Some campaigns \<Rightarrow> campaigns | None \<Rightarrow> [])"

section \<open>Time\<close>

text \<open>
  \<open>Date.now()\<close> is a number of milliseconds, passed in as \<open>now\<close>.
  \<open>parseDate\<close> of utils/index.ts is a call of the date-fns library, which is not part
  of the repository: the functions below take it as a parameter of type
  \<open>jsstring \<Rightarrow> int option\<close>, the value of \<open>parseDate(s).getTime()\<close>, where
  \<open>None\<close> is the \<open>NaN\<close> of an Invalid Date. Every comparison with \<open>NaN\<close> is false.
\<close>

type_synonym parser = "jsstring \<Rightarrow> int option"

definition num_ge :: "int \<Rightarrow> int option \<Rightarrow> bool" where
  "num_ge now t = (case t of Some ms \<Rightarrow> now \<ge> ms | None \<Rightarrow> False)"

section \<open>The status reconciler\<close>

text \<open>
  The body of the \<open>map\<close> callback, the same in utils/index.ts and in HomePage.tsx:
  it returns the new status and whether the \<open>updated\<close> flag was raised. Both tests
  read \<open>campaign.status\<close>, the status the campaign had when the pass began.
\<close>

definition newStatus :: "parser \<Rightarrow> int \<Rightarrow> campaign \<Rightarrow> CampaignStatus \<times> bool" where
  "newStatus parseDate now c =
     (let startD = parseDate (startDate c);
          endD = parseDate (endDate c)
      in if status c = En_espera \<and> num_ge now startD then (Activa, True)
         else if status c = Activa \<and> num_ge now endD then (Finalizada, True)
         else (status c, False))"

text \<open>utils/index.ts returns \<open>{ ...campaign, status: newStatus }\<close>.\<close>

definition reconcile_utils :: "parser \<Rightarrow> int \<Rightarrow> campaign \<Rightarrow> campaign" where
  "reconcile_utils parseDate now c = c\<lparr>status := fst (newStatus parseDate now c)\<rparr>"

text \<open>
  HomePage.tsx returns the campaign itself when the status did not change, and the copy
  with the new status otherwise.
\<close>

definition reconcile_HomePage :: "parser \<Rightarrow> int \<Rightarrow> campaign \<Rightarrow> campaign" where
  "reconcile_HomePage parseDate now c =
     (let s = fst (newStatus parseDate now c)
      in if s \<noteq> status c then c\<lparr>status := s\<rparr> else c)"

text \<open>
  The pure part of a pass: the mapped list and the final value of \<open>updated\<close>, which
  is true when some callback raised it.
\<close>

definition reconcile :: "parser \<Rightarrow> int \<Rightarrow> campaign list \<Rightarrow> campaign list \<times> bool" where
  "reconcile parseDate now campaigns =
     (map (reconcile_utils parseDate now) campaigns,
      list_ex (\<lambda>c. snd (newStatus parseDate now c)) campaigns)"

text \<open>
  \<open>updateCampaignStatuses\<close> of utils/index.ts: load, map, save when \<open>updated\<close>,
  return the mapped list. The result is the returned list and the store afterwards.
\<close>

definition updateCampaignStatuses :: "parser \<Rightarrow> int \<Rightarrow> store \<Rightarrow> campaign list \<times> store" where
  "updateCampaignStatuses parseDate now st =
     (let campaigns = getCampaigns st;
          (updatedCampaigns, updated) = reconcile parseDate now campaigns
      in (updatedCampaigns, if updated then saveCampaigns updatedCampaigns st else st))"

text \<open>
  The query function of HomePage.tsx: it fetches the campaigns and runs its own
  \<open>updateCampaignStatuses\<close> on them.
\<close>

definition updateCampaignStatuses_HomePage ::
  "parser \<Rightarrow> int \<Rightarrow> campaign list \<Rightarrow> store \<Rightarrow> campaign list \<times> store" where
  "updateCampaignStatuses_HomePage parseDate now campaigns st =
     (let updatedCampaigns = map (reconcile_HomePage parseDate now) campaigns;
          updated = list_ex (\<lambda>c. snd (newStatus parseDate now c)) campaigns
      in (updatedCampaigns, if updated then saveCampaigns updatedCampaigns st else st))"

definition queryFn :: "parser \<Rightarrow> int \<Rightarrow> store \<Rightarrow> campaign list \<times> store" where
  "queryFn parseDate now st =
     updateCampaignStatuses_HomePage parseDate now (getCampaigns st) st"

text \<open>
  A sequence of reconciliation calls, one per clock value, each on the store the
  previous one left.
\<close>

fun passes :: "parser \<Rightarrow> int list \<Rightarrow> store \<Rightarrow> store" where
  "passes parseDate [] st = st"
| "passes parseDate (now # nows) st =
     passes parseDate nows (snd (updateCampaignStatuses parseDate now st))"

text \<open>The order of the lifecycle: waiting, then active, then finished.\<close>

fun rank :: "CampaignStatus \<Rightarrow> nat" where
  "rank En_espera = 0"
| "rank Activa = 1"
| "rank Finalizada = 2"

text \<open>
  A fixture for the concrete cases below: the time values of four date strings, as a host
  in UTC parses them; any other string is an Invalid Date.
\<close>

definition clock_table :: parser where
  "clock_table = map_of
     [(js ''01/01/2024 00:00'', 1704067200000),
      (js ''02/01/2024 00:00'', 1704153600000),
      (js ''01/01/2030 00:00'', 1893456000000),
      (js ''02/01/2030 00:00'', 1893542400000)]"

definition sample_campaign :: "CampaignStatus \<Rightarrow> jsstring \<Rightarrow> jsstring \<Rightarrow> campaign" where
  "sample_campaign s startD endD =
     \<lparr>c_id = js ''c1'', c_name = js ''Q1 Outreach'', createdAt = js ''01/12/2023 00:00'',
      startDate = startD, endDate = endD, recordingStatus = False, status = s,
      people = [\<lparr>p_id = js ''p1'', p_name = js ''Ana'', lastName = js ''Gomez'',
                 phone = js ''(555) 990-0000''\<rparr>]\<rparr>"

section \<open>Regular expressions and strings of the forms\<close>

text \<open>
  The forms use three regular expressions: \<^verbatim>\<open>/\D/g\<close> and \<^verbatim>\<open>/[^\d]/g\<close> in
  \<open>replace\<close>, and \<^verbatim>\<open>/^[a-zA-Z...\s]+$/\<close> in \<open>test\<close>. A character class is
  a list of items; \<^verbatim>\<open>\d\<close> is the ASCII digits and \<^verbatim>\<open>\s\<close> the white space and
  line terminators of ECMAScript.
\<close>

datatype class_item = Range jschar jschar | Single jschar | Esc_d | Esc_s

definition isWhiteSpace :: "jschar \<Rightarrow> bool" where
  "isWhiteSpace c =
     (c = 0x09 \<or> c = 0x0A \<or> c = 0x0B \<or> c = 0x0C \<or> c = 0x0D \<or> c = 0x20 \<or> c = 0xA0
      \<or> c = 0x1680 \<or> (0x2000 \<le> c \<and> c \<le> 0x200A) \<or> c = 0x2028 \<or> c = 0x2029
      \<or> c = 0x202F \<or> c = 0x205F \<or> c = 0x3000 \<or> c = 0xFEFF)"

fun item_matches :: "jschar \<Rightarrow> class_item \<Rightarrow> bool" where
  "item_matches c (Range lo hi) = (lo \<le> c \<and> c \<le> hi)"
| "item_matches c (Single x) = (c = x)"
| "item_matches c Esc_d = (0x30 \<le> c \<and> c \<le> 0x39)"
| "item_matches c Esc_s = isWhiteSpace c"

definition in_class :: "class_item list \<Rightarrow> jschar \<Rightarrow> bool" where
  "in_class items c = list_ex (item_matches c) items"

text \<open>\<^verbatim>\<open>/^[items]+$/.test(s)\<close>: one or more characters of the class, then the end.\<close>

fun test_plus :: "class_item list \<Rightarrow> jsstring \<Rightarrow> bool" where
  "test_plus items [] = False"
| "test_plus items (c # cs) = (in_class items c \<and> (cs = [] \<or> test_plus items cs))"

text \<open>
  \<^verbatim>\<open>s.replace(/[^items]/g, "")\<close>: every character outside the class is removed.
  \<^verbatim>\<open>\D\<close> is \<^verbatim>\<open>[^\d]\<close>.
\<close>

definition remove_outside :: "class_item list \<Rightarrow> jsstring \<Rightarrow> jsstring" where
  "remove_outside items s = filter (in_class items) s"

text \<open>
  The class of the name and last-name tests, \<^verbatim>\<open>[a-zA-Z\<close> followed by the twelve
  letters U+00E1, U+00E9, U+00ED, U+00F3, U+00FA, U+00F1, U+00C1, U+00C9, U+00CD, U+00D3,
  U+00DA, U+00D1 (a, e, i, o, u with acute and n with tilde, small and capital) and
  \<^verbatim>\<open>\s]\<close>.
\<close>

definition name_class :: "class_item list" where
  "name_class =
     [Range 0x61 0x7A, Range 0x41 0x5A,
      Single 0xE1, Single 0xE9, Single 0xED, Single 0xF3, Single 0xFA, Single 0xF1,
      Single 0xC1, Single 0xC9, Single 0xCD, Single 0xD3, Single 0xDA, Single 0xD1,
      Esc_s]"

text \<open>\<open>String.prototype.trim\<close> removes white space and line terminators at both ends.\<close>

definition trim :: "jsstring \<Rightarrow> jsstring" where
  "trim s = rev (dropWhile isWhiteSpace (rev (dropWhile isWhiteSpace s)))"

section \<open>Phone numbers (CampaignForm and CampaignList, the same two functions)\<close>

text \<open>
  The digit-normalised phone: \<^verbatim>\<open>phone.replace(/\D/g, "")\<close>, which is also
  \<^verbatim>\<open>value.replace(/[^\d]/g, "")\<close>.
\<close>

abbreviation digitsOnly :: "jsstring \<Rightarrow> jsstring" where
  "digitsOnly ph \<equiv> remove_outside [Esc_d] ph"

definition isValidPhoneNumber :: "jsstring \<Rightarrow> bool" where
  "isValidPhoneNumber ph = (length (digitsOnly ph) \<ge> 7 \<and> length (digitsOnly ph) \<le> 15)"

text \<open>
  \<open>slice(0, 3)\<close> is \<open>take 3\<close>, \<open>slice(3)\<close> is \<open>drop 3\<close>, \<open>slice(3, 6)\<close> is
  \<open>take 3 (drop 3 _)\<close> and \<open>slice(6, 10)\<close> is \<open>take 4 (drop 6 _)\<close>.
\<close>

definition formatPhoneNumber :: "jsstring \<Rightarrow> jsstring" where
  "formatPhoneNumber v =
     (if v = [] then v
      else let phoneNumber = digitsOnly v;
               phoneNumberLength = length phoneNumber
           in if phoneNumberLength < 4 then phoneNumber
              else if phoneNumberLength < 7
                then js ''('' @ take 3 phoneNumber @ js '') '' @ drop 3 phoneNumber
              else js ''('' @ take 3 phoneNumber @ js '') '' @ take 3 (drop 3 phoneNumber)
                   @ js ''-'' @ take 4 (drop 6 phoneNumber))"

section \<open>Toasts\<close>

text \<open>
  The messages the two components show (in Spanish in the source). The error toasts, in
  the order below: only active campaigns can be finished (\<open>handleFinish\<close>); only waiting
  campaigns can be deleted (\<open>handleDelete\<close>); people cannot be removed from a
  finished campaign, and the last person of a campaign cannot be removed
  (\<open>handleDeletePerson\<close>); a person with this phone number is already in the campaign
  (\<open>handleAddPerson\<close> and \<open>addPerson\<close>). Then the success toasts of the mutations
  and of the form.
\<close>

datatype toast =
    FinishOnlyActive | DeleteOnlyWaiting | NoRemovalWhenFinished | NoRemovalOfLastPerson
  | PhoneAlreadyInCampaign
  | CampaignFinished | CampaignDeleted | CampaignUpdated | CampaignCreated | PersonAdded

text \<open>The error kinds of the specification, and the kind each error toast stands for.\<close>

datatype error_kind = InvalidTransition | LastPersonError | DuplicatePhone

fun kind :: "toast \<Rightarrow> error_kind option" where
  "kind FinishOnlyActive = Some InvalidTransition"
| "kind DeleteOnlyWaiting = Some InvalidTransition"
| "kind NoRemovalWhenFinished = Some InvalidTransition"
| "kind NoRemovalOfLastPerson = Some LastPersonError"
| "kind PhoneAlreadyInCampaign = Some DuplicatePhone"
| "kind _ = None"

section \<open>CampaignList: the handlers of the campaign cards\<close>

text \<open>
  The state of the component. The three error fields hold a message or the empty string;
  the message of a field never varies, so each is a flag. A handler takes the
  \<open>campaigns\<close> the component was rendered with, its state and the store, and returns
  the toast it shows, if any, the new state and the store afterwards. \<open>uuidv4()\<close> is
  the parameter \<open>uuid\<close>.
\<close>

record listState =
  deletingCampaign :: "campaign option"
  addingPersonToCampaign :: "campaign option"
  newPersonName :: jsstring
  newPersonLastName :: jsstring
  newPersonPhone :: jsstring
  nameError :: bool
  lastNameError :: bool
  phoneError :: bool

text \<open>The three mutations: each maps or filters \<open>campaigns\<close> and saves the result.\<close>

definition finishCampaign :: "campaign list \<Rightarrow> jsstring \<Rightarrow> store \<Rightarrow> store" where
  "finishCampaign campaigns ident st =
     saveCampaigns (map (\<lambda>c. if c_id c = ident then c\<lparr>status := Finalizada\<rparr> else c) campaigns) st"

definition deleteCampaign :: "campaign list \<Rightarrow> jsstring \<Rightarrow> store \<Rightarrow> store" where
  "deleteCampaign campaigns ident st =
     saveCampaigns (filter (\<lambda>c. c_id c \<noteq> ident) campaigns) st"

definition updateCampaign :: "campaign list \<Rightarrow> campaign \<Rightarrow> store \<Rightarrow> store" where
  "updateCampaign campaigns updatedCampaign st =
     saveCampaigns (map (\<lambda>c. if c_id c = c_id updatedCampaign then updatedCampaign else c)
       campaigns) st"

definition handleFinish ::
  "campaign list \<Rightarrow> jsstring \<Rightarrow> listState \<Rightarrow> store \<Rightarrow> toast option \<times> listState \<times> store" where
  "handleFinish campaigns ident ui st =
     (case find (\<lambda>c. c_id c = ident) campaigns of
        Some c \<Rightarrow>
          if status c = Activa
          then (Some CampaignFinished, ui, finishCampaign campaigns ident st)
          else (Some FinishOnlyActive, ui, st)
      | None \<Rightarrow> (Some FinishOnlyActive, ui, st))"

definition handleDelete ::
  "campaign \<Rightarrow> listState \<Rightarrow> store \<Rightarrow> toast option \<times> listState \<times> store" where
  "handleDelete c ui st =
     (if status c = En_espera then (None, ui\<lparr>deletingCampaign := Some c\<rparr>, st)
      else (Some DeleteOnlyWaiting, ui, st))"

text \<open>
  The button of the confirmation dialogue: it deletes the campaign that
  \<open>handleDelete\<close> recorded, and the success handler of the mutation clears the record.
\<close>

definition confirmDelete ::
  "campaign list \<Rightarrow> listState \<Rightarrow> store \<Rightarrow> toast option \<times> listState \<times> store" where
  "confirmDelete campaigns ui st =
     (case deletingCampaign ui of
        Some d \<Rightarrow>
          (Some CampaignDeleted, ui\<lparr>deletingCampaign := None\<rparr>, deleteCampaign campaigns (c_id d) st)
      | None \<Rightarrow> (None, ui, st))"

definition handleDeletePerson ::
  "campaign list \<Rightarrow> jsstring \<Rightarrow> jsstring \<Rightarrow> listState \<Rightarrow> store
     \<Rightarrow> toast option \<times> listState \<times> store" where
  "handleDeletePerson campaigns campaignId personId ui st =
     (case find (\<lambda>c. c_id c = campaignId) campaigns of
        Some c \<Rightarrow>
          if status c = Finalizada then (Some NoRemovalWhenFinished, ui, st)
          else if length (people c) \<le> 1 then (Some NoRemovalOfLastPerson, ui, st)
          else let updatedPeople = filter (\<lambda>p. p_id p \<noteq> personId) (people c);
                   updatedCampaign = c\<lparr>people := updatedPeople\<rparr>
               in (Some CampaignUpdated, ui, updateCampaign campaigns updatedCampaign st)
      | None \<Rightarrow> (None, ui, st))"

text \<open>
  The button that opens the add-person panel of a card is rendered only while the
  campaign is not finished. The panel itself stays open for as long as
  \<open>addingPersonToCampaign\<close> holds the campaign's id, whatever the status becomes.
\<close>

definition openAddPerson :: "campaign \<Rightarrow> listState \<Rightarrow> listState" where
  "openAddPerson c ui = (if status c \<noteq> Finalizada then ui\<lparr>addingPersonToCampaign := Some c\<rparr> else ui)"

text \<open>The change handlers of the three inputs of the panel.\<close>

definition changeNewPersonName :: "jsstring \<Rightarrow> listState \<Rightarrow> listState" where
  "changeNewPersonName v ui = ui\<lparr>newPersonName := v\<rparr>"

definition changeNewPersonLastName :: "jsstring \<Rightarrow> listState \<Rightarrow> listState" where
  "changeNewPersonLastName v ui = ui\<lparr>newPersonLastName := v\<rparr>"

definition changeNewPersonPhone :: "jsstring \<Rightarrow> listState \<Rightarrow> listState" where
  "changeNewPersonPhone v ui =
     (let formattedNumber = formatPhoneNumber v
      in ui\<lparr>newPersonPhone := formattedNumber,
            phoneError := \<not> isValidPhoneNumber formattedNumber\<rparr>)"

definition handleAddPerson ::
  "campaign list \<Rightarrow> jsstring \<Rightarrow> jsstring \<Rightarrow> listState \<Rightarrow> store
     \<Rightarrow> toast option \<times> listState \<times> store" where
  "handleAddPerson campaigns uuid campaignId ui st =
     (let nameOk = test_plus name_class (newPersonName ui);
          lastNameOk = test_plus name_class (newPersonLastName ui);
          phoneOk = isValidPhoneNumber (newPersonPhone ui);
          ui1 = ui\<lparr>nameError := \<not> nameOk, lastNameError := \<not> lastNameOk,
                   phoneError := \<not> phoneOk\<rparr>
      in if \<not> (nameOk \<and> lastNameOk \<and> phoneOk) then (None, ui1, st)
         else case find (\<lambda>c. c_id c = campaignId) campaigns of
                None \<Rightarrow> (None, ui1, st)
              | Some c \<Rightarrow>
                  if list_ex (\<lambda>p. phone p = newPersonPhone ui) (people c)
                  then (Some PhoneAlreadyInCampaign, ui1, st)
                  else let newPerson = \<lparr>p_id = uuid, p_name = newPersonName ui,
                                          lastName = newPersonLastName ui,
                                          phone = newPersonPhone ui\<rparr>;
                           updatedPeople = people c @ [newPerson];
                           updatedCampaign = c\<lparr>people := updatedPeople\<rparr>
                       in (Some CampaignUpdated,
                           ui1\<lparr>newPersonName := [], newPersonLastName := [],
                                newPersonPhone := [], addingPersonToCampaign := None\<rparr>,
                           updateCampaign campaigns updatedCampaign st))"

definition emptyList :: listState where
  "emptyList = \<lparr>deletingCampaign = None, addingPersonToCampaign = None, newPersonName = [],
     newPersonLastName = [], newPersonPhone = [], nameError = False, lastNameError = False,
     phoneError = False\<rparr>"

section \<open>CampaignForm: creating and editing a campaign\<close>

text \<open>
  A \<open>Date\<close> is its time value, \<open>None\<close> for an Invalid Date; a state field of type
  \<^verbatim>\<open>Date | null\<close> is an option of that. \<open>new Date()\<close> is the parameter \<open>now\<close>.
  Comparing two dates compares their time values, and is false when one is \<open>NaN\<close>.
  \<open>formatDate\<close> of utils/index.ts is a call of date-fns, taken as a parameter, as
  \<open>parseDate\<close> is: it maps a date to its text, or to \<open>None\<close> when the library
  throws.
\<close>

type_synonym jsdate = "int option"
type_synonym formatter = "jsdate \<Rightarrow> jsstring option"

definition date_lt :: "jsdate \<Rightarrow> jsdate \<Rightarrow> bool" where
  "date_lt a b = (case (a, b) of (Some x, Some y) \<Rightarrow> x < y | _ \<Rightarrow> False)"

definition date_le :: "jsdate \<Rightarrow> jsdate \<Rightarrow> bool" where
  "date_le a b = (case (a, b) of (Some x, Some y) \<Rightarrow> x \<le> y | _ \<Rightarrow> False)"

text \<open>
  \<open>validateDates\<close> returns the error of the start date, the error of the end date
  (each a message or null, here a flag) and \<open>isValid\<close>.
\<close>

definition validateDates ::
  "CampaignStatus \<Rightarrow> jsdate option \<Rightarrow> jsdate option \<Rightarrow> int \<Rightarrow> bool \<times> bool \<times> bool" where
  "validateDates s startD endD now =
     (let startDateErr =
            (case startD of
               Some d \<Rightarrow> s = En_espera \<and> date_lt d (Some now)
             | None \<Rightarrow> False);
          endDateErr =
            (case endD of
               Some e \<Rightarrow>
                 date_le e (if s = En_espera
                            then (case startD of Some d \<Rightarrow> d | None \<Rightarrow> Some now)
                            else Some now)
             | None \<Rightarrow> False)
      in (startDateErr, endDateErr, \<not> startDateErr \<and> \<not> endDateErr))"

record formState =
  f_name :: jsstring
  f_startDate :: "jsdate option"
  f_endDate :: "jsdate option"
  f_recordingStatus :: bool
  f_status :: CampaignStatus
  f_people :: "person list"
  personName :: jsstring
  personLastName :: jsstring
  personPhone :: jsstring
  startDateError :: bool
  endDateError :: bool
  personNameError :: bool
  personLastNameError :: bool
  personPhoneError :: bool

text \<open>
  The initial values of the \<open>useState\<close> calls. The form edits \<open>campaign\<close> when it
  is given one and creates a campaign otherwise. The list \<open>people\<close> starts as the
  people of the campaign being edited.
\<close>

definition initialState :: "parser \<Rightarrow> campaign option \<Rightarrow> formState" where
  "initialState parseDate campaign =
     \<lparr>f_name = (case campaign of Some c \<Rightarrow> c_name c | None \<Rightarrow> []),
      f_startDate =
        (case campaign of
           Some c \<Rightarrow> if startDate c \<noteq> [] then Some (parseDate (startDate c)) else None
         | None \<Rightarrow> None),
      f_endDate =
        (case campaign of
           Some c \<Rightarrow> if endDate c \<noteq> [] then Some (parseDate (endDate c)) else None
         | None \<Rightarrow> None),
      f_recordingStatus = (case campaign of Some c \<Rightarrow> recordingStatus c | None \<Rightarrow> False),
      f_status = (case campaign of Some c \<Rightarrow> status c | None \<Rightarrow> En_espera),
      f_people = (case campaign of Some c \<Rightarrow> people c | None \<Rightarrow> []),
      personName = [], personLastName = [], personPhone = [],
      startDateError = False, endDateError = False,
      personNameError = False, personLastNameError = False, personPhoneError = False\<rparr>"

definition updateStartDate :: "CampaignStatus \<Rightarrow> int \<Rightarrow> jsdate option \<Rightarrow> jsdate option" where
  "updateStartDate newSt now currentStartDate =
     (if newSt = Activa then Some (Some now) else currentStartDate)"

text \<open>
  The two effects, which run after the first render and after a change of the status or
  of a date: the start date of an active campaign is set to the present, and the date
  errors are recomputed.
\<close>

definition effects :: "int \<Rightarrow> formState \<Rightarrow> formState" where
  "effects now fs =
     (let fs1 = fs\<lparr>f_startDate := updateStartDate (f_status fs) now (f_startDate fs)\<rparr>;
          (startDateErr, endDateErr, isValid) =
             validateDates (f_status fs1) (f_startDate fs1) (f_endDate fs1) now
      in fs1\<lparr>startDateError := startDateErr, endDateError := endDateErr\<rparr>)"

definition mount :: "parser \<Rightarrow> int \<Rightarrow> campaign option \<Rightarrow> formState" where
  "mount parseDate now campaign = effects now (initialState parseDate campaign)"

definition isFormValid :: "int \<Rightarrow> formState \<Rightarrow> bool" where
  "isFormValid now fs =
     (if trim (f_name fs) = [] \<or> length (f_people fs) = 0 then False
      else snd (snd (validateDates (f_status fs) (f_startDate fs) (f_endDate fs) now)))"

text \<open>The change handlers of the three inputs of a person.\<close>

definition changePersonName :: "jsstring \<Rightarrow> formState \<Rightarrow> formState" where
  "changePersonName v fs = fs\<lparr>personName := v, personNameError := \<not> test_plus name_class v\<rparr>"

definition changePersonLastName :: "jsstring \<Rightarrow> formState \<Rightarrow> formState" where
  "changePersonLastName v fs =
     fs\<lparr>personLastName := v, personLastNameError := \<not> test_plus name_class v\<rparr>"

definition changePersonPhone :: "jsstring \<Rightarrow> formState \<Rightarrow> formState" where
  "changePersonPhone v fs =
     (let formattedNumber = formatPhoneNumber v
      in fs\<lparr>personPhone := formattedNumber,
            personPhoneError := \<not> isValidPhoneNumber formattedNumber\<rparr>)"

definition addPerson :: "jsstring \<Rightarrow> formState \<Rightarrow> toast option \<times> formState" where
  "addPerson uuid fs =
     (let nameOk = test_plus name_class (personName fs);
          lastNameOk = test_plus name_class (personLastName fs);
          phoneOk = isValidPhoneNumber (personPhone fs);
          fs1 = fs\<lparr>personNameError := \<not> nameOk, personLastNameError := \<not> lastNameOk,
                   personPhoneError := \<not> phoneOk\<rparr>
      in if \<not> (nameOk \<and> lastNameOk \<and> phoneOk) then (None, fs1)
         else if list_ex (\<lambda>p. phone p = personPhone fs) (f_people fs)
           then (Some PhoneAlreadyInCampaign, fs1)
         else let newPerson = \<lparr>p_id = uuid, p_name = personName fs,
                                 lastName = personLastName fs, phone = personPhone fs\<rparr>
              in (Some PersonAdded,
                  fs1\<lparr>f_people := f_people fs @ [newPerson], personName := [],
                       personLastName := [], personPhone := []\<rparr>))"

text \<open>
  \<open>handleSubmit\<close> with the mutation it starts. The result is \<open>None\<close> when
  \<open>formatDate\<close> throws; otherwise the toast, if any, and the store afterwards. An
  invalid form returns at once. The dates are formatted in the order of the fields of
  \<open>newCampaign\<close>; \<open>createdAt\<close> and \<open>id\<close> are those of the campaign being edited
  unless they are empty. A missing end date (\<^verbatim>\<open>endDate!\<close>) reaches \<open>formatDate\<close>
  as null, which date-fns reads as an Invalid Date.
\<close>

definition handleSubmit ::
  "formatter \<Rightarrow> jsstring \<Rightarrow> int \<Rightarrow> campaign option \<Rightarrow> formState \<Rightarrow> store
     \<Rightarrow> (toast option \<times> store) option" where
  "handleSubmit formatDate uuid now campaign fs st =
     (if \<not> isFormValid now fs then Some (None, st)
      else
        let actualStartDate =
              (if f_status fs = Activa then Some now
               else (case f_startDate fs of Some d \<Rightarrow> d | None \<Rightarrow> Some now));
            createdAtText =
              (case campaign of
                 Some c \<Rightarrow> if createdAt c \<noteq> [] then Some (createdAt c) else formatDate (Some now)
               | None \<Rightarrow> formatDate (Some now));
            startText = formatDate actualStartDate;
            endText = formatDate (case f_endDate fs of Some e \<Rightarrow> e | None \<Rightarrow> None)
        in case (createdAtText, startText, endText) of
             (Some ca, Some sd, Some ed) \<Rightarrow>
               let newCampaign =
                     \<lparr>c_id = (case campaign of
                                Some c \<Rightarrow> if c_id c \<noteq> [] then c_id c else uuid
                              | None \<Rightarrow> uuid),
                      c_name = f_name fs,
                      createdAt = ca,
                      startDate = sd,
                      endDate = ed,
                      recordingStatus = f_recordingStatus fs,
                      status = f_status fs,
                      people = (case campaign of Some c \<Rightarrow> people c | None \<Rightarrow> [])
                               @ f_people fs\<rparr>;
                   campaigns = getCampaigns st;
                   updatedCampaigns =
                     (case campaign of
                        Some c \<Rightarrow> map (\<lambda>x. if c_id x = c_id c then newCampaign else x) campaigns
                      | None \<Rightarrow> campaigns @ [newCampaign])
               in Some (Some (case campaign of Some c \<Rightarrow> CampaignUpdated
                                             | None \<Rightarrow> CampaignCreated),
                        saveCampaigns updatedCampaigns st)
           | _ \<Rightarrow> None)"


section \<open>The application: HomePage with its form and its list\<close>

text \<open>
  The remaining change handlers of the form. \<open>revalidate\<close> is the effect that
  recomputes the date errors after a date has changed. The date pickers give a valid date
  or null; the picker of the start date is disabled while the status is active, and a
  start date at or after the end date moves the end date to one hour later.
\<close>

definition revalidate :: "int \<Rightarrow> formState \<Rightarrow> formState" where
  "revalidate now fs =
     (let (startDateErr, endDateErr, isValid) =
             validateDates (f_status fs) (f_startDate fs) (f_endDate fs) now
      in fs\<lparr>startDateError := startDateErr, endDateError := endDateErr\<rparr>)"

definition changeName :: "jsstring \<Rightarrow> formState \<Rightarrow> formState" where
  "changeName v fs = fs\<lparr>f_name := v\<rparr>"

definition changeStatus :: "CampaignStatus \<Rightarrow> int \<Rightarrow> formState \<Rightarrow> formState" where
  "changeStatus s now fs = effects now (fs\<lparr>f_status := s\<rparr>)"

definition changeStartDate :: "int option \<Rightarrow> int \<Rightarrow> formState \<Rightarrow> formState" where
  "changeStartDate d now fs =
     (if f_status fs = Activa then fs
      else let fs1 = fs\<lparr>f_startDate := map_option Some d\<rparr>;
               fs2 = (case d of
                        None \<Rightarrow> fs1
                      | Some t \<Rightarrow>
                          (case f_endDate fs of
                             None \<Rightarrow> fs1\<lparr>f_endDate := Some (Some (t + 60 * 60 * 1000))\<rparr>
                           | Some e \<Rightarrow>
                               if date_le e (Some t)
                               then fs1\<lparr>f_endDate := Some (Some (t + 60 * 60 * 1000))\<rparr>
                               else fs1))
           in revalidate now fs2)"

definition changeEndDate :: "int option \<Rightarrow> int \<Rightarrow> formState \<Rightarrow> formState" where
  "changeEndDate d now fs = revalidate now (fs\<lparr>f_endDate := map_option Some d\<rparr>)"

definition changeRecordingStatus :: "bool \<Rightarrow> formState \<Rightarrow> formState" where
  "changeRecordingStatus b fs = fs\<lparr>f_recordingStatus := b\<rparr>"

text \<open>
  \<open>App\<close> renders \<open>HomePage\<close> and nothing else. \<open>HomePage\<close> holds the data of
  the campaigns query (the empty list until the first fetch), renders \<open>CampaignForm\<close>
  without a \<open>campaign\<close> while \<open>showForm\<close> is set, and renders \<open>CampaignList\<close>
  with the data of the query while that is not empty. The state of the application is
  the store, the data of the query, the state of the form while it is shown, and the
  state of the list.
\<close>

record app =
  a_store :: store
  a_campaigns :: "campaign list"
  a_form :: "formState option"
  a_list :: listState


text \<open>
  What can happen: the page is loaded again; the query is fetched (every 60 seconds and
  after each mutation); the form is opened, filled in, submitted or closed; a button or
  an input of a campaign card is used. Every clock value, typed text and fresh identifier
  is an argument of the event.
\<close>

datatype event =
    Reload
  | Refetch int
  | ShowForm int
  | CloseForm
  | ChangeName jsstring
  | ChangeStatus CampaignStatus int
  | ChangeStartDate "int option" int
  | ChangeEndDate "int option" int
  | ChangeRecordingStatus bool
  | ChangePersonName jsstring
  | ChangePersonLastName jsstring
  | ChangePersonPhone jsstring
  | AddPerson jsstring
  | Submit jsstring int
  | Finish jsstring
  | Delete campaign
  | ConfirmDelete
  | CancelDelete
  | DeletePerson jsstring jsstring
  | OpenAddPerson campaign
  | CancelAddPerson
  | ChangeNewPersonName jsstring
  | ChangeNewPersonLastName jsstring
  | ChangeNewPersonPhone jsstring
  | AddPersonToCampaign jsstring jsstring

text \<open>
  An event of the form does nothing while the form is not shown, and an event of the list
  nothing while the list is not rendered. A button that the form or a card disables in
  some state (submit, finish, delete, remove) is left enabled here: its handler makes its
  own tests, so this only adds runs. The button that opens the add-person panel is
  hidden on a finished campaign, as \<open>openAddPerson\<close> has it.
  The status menu of the form offers waiting and active. \<open>handleDelete\<close> and the
  button of the add-person panel receive a campaign of the rendered list. A submission
  that succeeds closes the form; one that returns early or throws leaves everything as
  it was.
\<close>

definition onForm :: "(formState \<Rightarrow> formState) \<Rightarrow> app \<Rightarrow> app" where
  "onForm f s = (case a_form s of None \<Rightarrow> s | Some fs \<Rightarrow> s\<lparr>a_form := Some (f fs)\<rparr>)"

definition onList ::
  "(campaign list \<Rightarrow> listState \<Rightarrow> store \<Rightarrow> toast option \<times> listState \<times> store) \<Rightarrow> app \<Rightarrow> app" where
  "onList h s =
     (if a_campaigns s = [] then s
      else let (t, ui, st) = h (a_campaigns s) (a_list s) (a_store s)
           in s\<lparr>a_list := ui, a_store := st\<rparr>)"

definition onPanel :: "(listState \<Rightarrow> listState) \<Rightarrow> app \<Rightarrow> app" where
  "onPanel f s = (if a_campaigns s = [] then s else s\<lparr>a_list := f (a_list s)\<rparr>)"

fun fire :: "parser \<Rightarrow> formatter \<Rightarrow> event \<Rightarrow> app \<Rightarrow> app" where
  "fire parseDate formatDate Reload s =
     s\<lparr>a_campaigns := [], a_form := None, a_list := emptyList\<rparr>"
| "fire parseDate formatDate (Refetch now) s =
     (let (campaigns, st) = queryFn parseDate now (a_store s)
      in s\<lparr>a_store := st, a_campaigns := campaigns,
            a_list := (if campaigns = [] then emptyList else a_list s)\<rparr>)"
| "fire parseDate formatDate (ShowForm now) s =
     (case a_form s of None \<Rightarrow> s\<lparr>a_form := Some (mount parseDate now None)\<rparr> | Some fs \<Rightarrow> s)"
| "fire parseDate formatDate CloseForm s = s\<lparr>a_form := None\<rparr>"
| "fire parseDate formatDate (ChangeName v) s = onForm (changeName v) s"
| "fire parseDate formatDate (ChangeStatus v now) s =
     (if v = Finalizada then s else onForm (changeStatus v now) s)"
| "fire parseDate formatDate (ChangeStartDate d now) s = onForm (changeStartDate d now) s"
| "fire parseDate formatDate (ChangeEndDate d now) s = onForm (changeEndDate d now) s"
| "fire parseDate formatDate (ChangeRecordingStatus b) s = onForm (changeRecordingStatus b) s"
| "fire parseDate formatDate (ChangePersonName v) s = onForm (changePersonName v) s"
| "fire parseDate formatDate (ChangePersonLastName v) s = onForm (changePersonLastName v) s"
| "fire parseDate formatDate (ChangePersonPhone v) s = onForm (changePersonPhone v) s"
| "fire parseDate formatDate (AddPerson uuid) s = onForm (\<lambda>fs. snd (addPerson uuid fs)) s"
| "fire parseDate formatDate (Submit uuid now) s =
     (case a_form s of
        None \<Rightarrow> s
      | Some fs \<Rightarrow>
          (case handleSubmit formatDate uuid now None fs (a_store s) of
             Some (Some t, st) \<Rightarrow> s\<lparr>a_store := st, a_form := None\<rparr>
           | _ \<Rightarrow> s))"
| "fire parseDate formatDate (Finish ident) s = onList (\<lambda>cs. handleFinish cs ident) s"
| "fire parseDate formatDate (Delete c) s =
     (if c \<in> set (a_campaigns s) then onList (\<lambda>cs. handleDelete c) s else s)"
| "fire parseDate formatDate ConfirmDelete s = onList confirmDelete s"
| "fire parseDate formatDate CancelDelete s = onPanel (\<lambda>ui. ui\<lparr>deletingCampaign := None\<rparr>) s"
| "fire parseDate formatDate (DeletePerson campaignId personId) s =
     onList (\<lambda>cs. handleDeletePerson cs campaignId personId) s"
| "fire parseDate formatDate (OpenAddPerson c) s =
     (if c \<in> set (a_campaigns s) then onPanel (openAddPerson c) s else s)"
| "fire parseDate formatDate CancelAddPerson s =
     onPanel (\<lambda>ui. ui\<lparr>addingPersonToCampaign := None\<rparr>) s"
| "fire parseDate formatDate (ChangeNewPersonName v) s = onPanel (changeNewPersonName v) s"
| "fire parseDate formatDate (ChangeNewPersonLastName v) s =
     onPanel (changeNewPersonLastName v) s"
| "fire parseDate formatDate (ChangeNewPersonPhone v) s = onPanel (changeNewPersonPhone v) s"
| "fire parseDate formatDate (AddPersonToCampaign uuid campaignId) s =
     onList (\<lambda>cs. handleAddPerson cs uuid campaignId) s"

fun run :: "parser \<Rightarrow> formatter \<Rightarrow> event list \<Rightarrow> app \<Rightarrow> app" where
  "run parseDate formatDate [] s = s"
| "run parseDate formatDate (e # es) s = run parseDate formatDate es (fire parseDate formatDate e s)"







text \<open>
  Inputs for the concrete cases of the name tests: a panel with the name U+004A U+006F
  U+0073 U+00E9 and a given last name, and a creation form with a given name; both with
  the phone 5557654321 typed.
\<close>

definition sample_panel :: "jsstring \<Rightarrow> listState" where
  "sample_panel lastN =
     changeNewPersonPhone (js ''5557654321'')
       (changeNewPersonLastName lastN (changeNewPersonName [0x4A, 0x6F, 0x73, 0xE9] emptyList))"

definition sample_form :: "jsstring \<Rightarrow> formState" where
  "sample_form firstN =
     changePersonPhone (js ''5557654321'')
       (changePersonLastName (js ''Perez'')
          (changePersonName firstN (mount clock_table 1704067200000 None)))"

section \<open>Reference notions of the specification\<close>

text \<open>
  The specification speaks of a Unicode-aware letter class. Its part below U+0100 is
  enough here: the letters (general category L) of the Basic Latin and Latin-1 blocks are
  A-Z, a-z, U+00AA, U+00B5, U+00BA, U+00C0-U+00D6, U+00D8-U+00F6 and U+00F8-U+00FF.
\<close>

definition latin1_letter :: "jschar \<Rightarrow> bool" where
  "latin1_letter c =
     ((0x41 \<le> c \<and> c \<le> 0x5A) \<or> (0x61 \<le> c \<and> c \<le> 0x7A) \<or> c = 0xAA \<or> c = 0xB5
      \<or> c = 0xBA \<or> (0xC0 \<le> c \<and> c \<le> 0xD6) \<or> (0xD8 \<le> c \<and> c \<le> 0xF6)
      \<or> (0xF8 \<le> c \<and> c \<le> 0xFF))"

text \<open>
  The code units that the class of the name tests lists: the ASCII letters, the twelve
  accented letters and the white space of \<^verbatim>\<open>\s\<close>.
\<close>

abbreviation name_chars :: "jschar set" where
  "name_chars \<equiv> {0x61..0x7A} \<union> {0x41..0x5A}
       \<union> {0xE1, 0xE9, 0xED, 0xF3, 0xFA, 0xF1, 0xC1, 0xC9, 0xCD, 0xD3, 0xDA, 0xD1}
       \<union> {c. isWhiteSpace c}"

section \<open>Properties of the reconciler\<close>

lemma getCampaigns_saveCampaigns: "getCampaigns (saveCampaigns campaigns st) = campaigns"
  by (simp add: getCampaigns_def saveCampaigns_def)

lemma reconcile_HomePage_eq: "reconcile_HomePage parseDate now = reconcile_utils parseDate now"
  by (rule ext) (simp add: reconcile_HomePage_def reconcile_utils_def Let_def)

lemma queryFn_eq: "queryFn parseDate now st = updateCampaignStatuses parseDate now st"
  by (simp add: queryFn_def updateCampaignStatuses_HomePage_def updateCampaignStatuses_def
      reconcile_def reconcile_HomePage_eq Let_def)

lemma newStatus_unchanged:
  "\<not> snd (newStatus parseDate now c) \<Longrightarrow> fst (newStatus parseDate now c) = status c"
  by (simp add: newStatus_def Let_def split: if_splits)

lemma reconcile_unchanged:
  "\<not> snd (reconcile parseDate now cs) \<Longrightarrow> fst (reconcile parseDate now cs) = cs"
  by (induction cs)
     (auto simp: reconcile_def reconcile_utils_def newStatus_unchanged list_ex_iff)

lemma getCampaigns_updateCampaignStatuses:
  "getCampaigns (snd (updateCampaignStatuses parseDate now st)) =
     fst (reconcile parseDate now (getCampaigns st))"
proof (cases "snd (reconcile parseDate now (getCampaigns st))")
  case True
  then show ?thesis
    by (simp add: updateCampaignStatuses_def Let_def split_beta saveCampaigns_def
        getCampaigns_def)
next
  case False
  then show ?thesis
    using reconcile_unchanged [of parseDate now "getCampaigns st"]
    by (simp add: updateCampaignStatuses_def Let_def split_beta)
qed

lemma rank_newStatus: "rank (status c) \<le> rank (fst (newStatus parseDate now c))"
  by (simp add: newStatus_def Let_def)

lemma rank_reconcile:
  "list_all2 (\<lambda>c c'. rank (status c) \<le> rank (status c')) cs (fst (reconcile parseDate now cs))"
  by (induction cs) (simp_all add: reconcile_def reconcile_utils_def rank_newStatus)

lemma fst_updateCampaignStatuses:
  "fst (updateCampaignStatuses parseDate now st) = fst (reconcile parseDate now (getCampaigns st))"
  by (simp add: updateCampaignStatuses_def Let_def split_beta)

lemma status_reconcile_nth:
  "i < length cs \<Longrightarrow>
   status (fst (reconcile parseDate now cs) ! i) = fst (newStatus parseDate now (cs ! i))"
  by (simp add: reconcile_def reconcile_utils_def)

lemma dates_reconcile_utils:
  "startDate (reconcile_utils parseDate now c) = startDate c"
  "endDate (reconcile_utils parseDate now c) = endDate c"
  by (simp_all add: reconcile_utils_def)

lemma newStatus_twice:
  "\<not> (status c = En_espera \<and> num_ge now (parseDate (startDate c))
        \<and> num_ge now (parseDate (endDate c))) \<Longrightarrow>
   newStatus parseDate now (reconcile_utils parseDate now c) =
     (fst (newStatus parseDate now c), False)"
  by (cases "status c") (auto simp: newStatus_def reconcile_utils_def Let_def)

lemma reconcile_twice:
  assumes "\<forall>c \<in> set cs. \<not> (status c = En_espera \<and> num_ge now (parseDate (startDate c))
              \<and> num_ge now (parseDate (endDate c)))"
  shows "reconcile parseDate now (fst (reconcile parseDate now cs)) =
           (fst (reconcile parseDate now cs), False)"
  using assms
proof (induction cs)
  case Nil
  show ?case by (simp add: reconcile_def)
next
  case (Cons c cs)
  have hd: "newStatus parseDate now (reconcile_utils parseDate now c) =
      (fst (newStatus parseDate now c), False)"
    using Cons.prems by (intro newStatus_twice) simp
  have tl: "reconcile parseDate now (fst (reconcile parseDate now cs)) =
      (fst (reconcile parseDate now cs), False)"
    using Cons by simp
  have same: "reconcile_utils parseDate now (reconcile_utils parseDate now c) =
      reconcile_utils parseDate now c"
    using hd by (simp add: reconcile_utils_def)
  show ?case
    using hd tl same by (simp add: reconcile_def)
qed

lemma newStatus_second_flag:
  "snd (newStatus parseDate now (reconcile_utils parseDate now c)) \<longleftrightarrow>
     status c = En_espera \<and> num_ge now (parseDate (startDate c))
       \<and> num_ge now (parseDate (endDate c))"
  by (cases "status c") (auto simp: newStatus_def reconcile_utils_def Let_def)

lemma second_pass_flag:
  "snd (reconcile parseDate now (fst (reconcile parseDate now cs))) \<longleftrightarrow>
     (\<exists>c \<in> set cs. status c = En_espera \<and> num_ge now (parseDate (startDate c))
        \<and> num_ge now (parseDate (endDate c)))"
  by (simp add: reconcile_def list_ex_iff newStatus_second_flag)

lemma rank_forward:
  "rank s \<le> rank s' \<Longrightarrow>
     (s = Finalizada \<longrightarrow> s' = Finalizada) \<and> (s = Activa \<longrightarrow> s' \<noteq> En_espera)"
  by (cases s; cases s') simp_all

section \<open>The claims about the reconciler\<close>

text \<open>
  C1, as the specification states it: a waiting campaign whose start and end dates are
  both at or before the clock is finished after one pass. It is not: the test for
  finishing is the \<open>else\<close> branch of the test for starting and reads the status the
  campaign had before the pass. A campaign waiting since 2024, with its window over on
  2 January 2024, is active, not finished, after one pass in 2030, in utils/index.ts and
  in HomePage.tsx alike.
\<close>

theorem C1_double_transition_counterexample:
  "status (sample_campaign En_espera (js ''01/01/2024 00:00'') (js ''02/01/2024 00:00'')) = En_espera
   \<and> num_ge 1893456000000 (clock_table (js ''01/01/2024 00:00''))
   \<and> num_ge 1893456000000 (clock_table (js ''02/01/2024 00:00''))
   \<and> map status (fst (updateCampaignStatuses clock_table 1893456000000
        (Some [sample_campaign En_espera (js ''01/01/2024 00:00'') (js ''02/01/2024 00:00'')])))
       = [Activa]
   \<and> map status (fst (queryFn clock_table 1893456000000
        (Some [sample_campaign En_espera (js ''01/01/2024 00:00'') (js ''02/01/2024 00:00'')])))
       = [Activa]"
  by (simp add: queryFn_eq updateCampaignStatuses_def reconcile_def reconcile_utils_def
      newStatus_def getCampaigns_def sample_campaign_def clock_table_def num_ge_def js_def)

text \<open>
  C1, amended: a waiting campaign whose start date is at or before the clock is active
  after one pass, whatever its end date; when its end date is at or before the clock too,
  it is finished after the second pass at that clock.
\<close>

theorem C1_one_transition_per_pass:
  assumes "i < length (getCampaigns st)"
    and "status (getCampaigns st ! i) = En_espera"
    and "num_ge now (parseDate (startDate (getCampaigns st ! i)))"
  shows "status (fst (updateCampaignStatuses parseDate now st) ! i) = Activa
    \<and> (num_ge now (parseDate (endDate (getCampaigns st ! i))) \<longrightarrow>
         status (fst (updateCampaignStatuses parseDate now
           (snd (updateCampaignStatuses parseDate now st))) ! i) = Finalizada)"
proof -
  let ?cs = "getCampaigns st"
  let ?cs1 = "fst (reconcile parseDate now ?cs)"
  have len: "length ?cs1 = length ?cs" by (simp add: reconcile_def)
  have one: "status (?cs1 ! i) = Activa"
    using assms by (simp add: status_reconcile_nth newStatus_def Let_def)
  have nth1: "?cs1 ! i = reconcile_utils parseDate now (?cs ! i)"
    using assms(1) by (simp add: reconcile_def)
  have two: "status (fst (reconcile parseDate now ?cs1) ! i) = Finalizada"
    if "num_ge now (parseDate (endDate (?cs ! i)))"
  proof -
    have "status (fst (reconcile parseDate now ?cs1) ! i) = fst (newStatus parseDate now (?cs1 ! i))"
      using assms(1) len by (simp add: status_reconcile_nth)
    also have "\<dots> = Finalizada"
      using one that by (simp add: newStatus_def Let_def nth1 dates_reconcile_utils)
    finally show ?thesis .
  qed
  show ?thesis
    using one two
    by (simp add: fst_updateCampaignStatuses getCampaigns_updateCampaignStatuses)
qed

theorem C1_one_transition_per_pass_witness:
  "status (fst (updateCampaignStatuses clock_table 1893456000000
      (Some [sample_campaign En_espera (js ''01/01/2024 00:00'') (js ''02/01/2024 00:00'')])) ! 0)
     = Activa
   \<and> status (fst (updateCampaignStatuses clock_table 1893456000000
      (snd (updateCampaignStatuses clock_table 1893456000000
        (Some [sample_campaign En_espera (js ''01/01/2024 00:00'') (js ''02/01/2024 00:00'')])))) ! 0)
     = Finalizada"
  using C1_one_transition_per_pass [of 0
      "Some [sample_campaign En_espera (js ''01/01/2024 00:00'') (js ''02/01/2024 00:00'')]"
      1893456000000 clock_table]
  by (simp add: getCampaigns_def sample_campaign_def clock_table_def num_ge_def js_def)

text \<open>
  C2, as the specification states it: a second pass at the same clock changes nothing.
  It does for the campaign of C1: the first pass leaves it active and raises the flag, the
  second pass, at the same clock, finishes it and raises the flag again.
\<close>

theorem C2_idempotent_counterexample:
  "map status (fst (updateCampaignStatuses clock_table 1893456000000
      (Some [sample_campaign En_espera (js ''01/01/2024 00:00'') (js ''02/01/2024 00:00'')])))
     = [Activa]
   \<and> map status (fst (updateCampaignStatuses clock_table 1893456000000
      (snd (updateCampaignStatuses clock_table 1893456000000
        (Some [sample_campaign En_espera (js ''01/01/2024 00:00'') (js ''02/01/2024 00:00'')])))))
     = [Finalizada]
   \<and> snd (reconcile clock_table 1893456000000
      (getCampaigns (snd (updateCampaignStatuses clock_table 1893456000000
        (Some [sample_campaign En_espera (js ''01/01/2024 00:00'') (js ''02/01/2024 00:00'')])))))"
  by (simp add: updateCampaignStatuses_def reconcile_def reconcile_utils_def saveCampaigns_def
      newStatus_def getCampaigns_def sample_campaign_def clock_table_def num_ge_def js_def)

text \<open>
  C2, amended: when no waiting campaign of the list has both its start date and its end
  date at or before the clock, a second pass at the same clock returns the list the first
  pass returned, raises no flag and leaves the store as the first pass left it.
\<close>

theorem C2_second_pass_no_change:
  assumes "\<forall>c \<in> set (getCampaigns st).
      \<not> (status c = En_espera \<and> num_ge now (parseDate (startDate c))
         \<and> num_ge now (parseDate (endDate c)))"
  shows "updateCampaignStatuses parseDate now (snd (updateCampaignStatuses parseDate now st))
       = (fst (updateCampaignStatuses parseDate now st),
          snd (updateCampaignStatuses parseDate now st))
    \<and> \<not> snd (reconcile parseDate now
          (getCampaigns (snd (updateCampaignStatuses parseDate now st))))"
proof -
  let ?st1 = "snd (updateCampaignStatuses parseDate now st)"
  let ?cs1 = "fst (reconcile parseDate now (getCampaigns st))"
  have load: "getCampaigns ?st1 = ?cs1"
    by (rule getCampaigns_updateCampaignStatuses)
  have again: "reconcile parseDate now ?cs1 = (?cs1, False)"
    using assms by (rule reconcile_twice)
  have "updateCampaignStatuses parseDate now ?st1 = (?cs1, ?st1)"
    using again by (simp add: updateCampaignStatuses_def [of parseDate now ?st1] load)
  then show ?thesis
    using again by (simp add: load fst_updateCampaignStatuses)
qed

theorem C2_second_pass_no_change_witness:
  "updateCampaignStatuses clock_table 1893456000000
     (snd (updateCampaignStatuses clock_table 1893456000000
        (Some [sample_campaign En_espera (js ''01/01/2024 00:00'') (js ''02/01/2030 00:00'')])))
   = updateCampaignStatuses clock_table 1893456000000
        (Some [sample_campaign En_espera (js ''01/01/2024 00:00'') (js ''02/01/2030 00:00'')])
   \<and> map status (fst (updateCampaignStatuses clock_table 1893456000000
        (Some [sample_campaign En_espera (js ''01/01/2024 00:00'') (js ''02/01/2030 00:00'')])))
     = [Activa]"
  using C2_second_pass_no_change [of
      "Some [sample_campaign En_espera (js ''01/01/2024 00:00'') (js ''02/01/2030 00:00'')]"
      1893456000000 clock_table]
  by (simp add: updateCampaignStatuses_def reconcile_def reconcile_utils_def saveCampaigns_def
      newStatus_def getCampaigns_def sample_campaign_def clock_table_def num_ge_def js_def)

text \<open>
  C8: over any sequence of reconciliation calls, at any clock values (non-decreasing ones
  among them), the status of every campaign of the store stays where it is or moves
  forward in the order waiting, active, finished: a finished campaign stays finished, an
  active one never goes back to waiting. The store keeps its campaigns in place, so the
  two lists are compared position by position. In the concrete case a waiting campaign is
  reconciled before its start and after it, and an active one after its end and then with
  the clock set back.
\<close>

theorem C8_status_never_regresses:
  "list_all2 (\<lambda>c c'. rank (status c) \<le> rank (status c')
        \<and> (status c = Finalizada \<longrightarrow> status c' = Finalizada)
        \<and> (status c = Activa \<longrightarrow> status c' \<noteq> En_espera))
     (getCampaigns st) (getCampaigns (passes parseDate nows st))"
proof -
  have "list_all2 (\<lambda>c c'. rank (status c) \<le> rank (status c'))
      (getCampaigns st) (getCampaigns (passes parseDate nows st))"
  proof (induction nows arbitrary: st)
    case Nil
    show ?case by (simp add: list_all2_refl)
  next
    case (Cons now nows)
    let ?st1 = "snd (updateCampaignStatuses parseDate now st)"
    have first: "list_all2 (\<lambda>c c'. rank (status c) \<le> rank (status c'))
        (getCampaigns st) (getCampaigns ?st1)"
      by (simp add: getCampaigns_updateCampaignStatuses rank_reconcile)
    have rest: "list_all2 (\<lambda>c c'. rank (status c) \<le> rank (status c'))
        (getCampaigns ?st1) (getCampaigns (passes parseDate nows ?st1))"
      by (rule Cons.IH)
    have "list_all2 (\<lambda>c c'. rank (status c) \<le> rank (status c'))
        (getCampaigns st) (getCampaigns (passes parseDate nows ?st1))"
      by (rule list_all2_trans [OF _ first rest]) simp
    then show ?case by simp
  qed
  then show ?thesis
    by (rule list_all2_mono) (simp add: rank_forward)
qed

theorem C8_status_never_regresses_witness:
  "map status (getCampaigns (passes clock_table [1704067200000]
      (Some [sample_campaign En_espera (js ''01/01/2030 00:00'') (js ''02/01/2030 00:00'')])))
     = [En_espera]
   \<and> map status (getCampaigns (passes clock_table [1704067200000, 1893456000000]
      (Some [sample_campaign En_espera (js ''01/01/2030 00:00'') (js ''02/01/2030 00:00'')])))
     = [Activa]
   \<and> map status (getCampaigns (passes clock_table [1893542400000, 1704067200000]
      (Some [sample_campaign Activa (js ''01/01/2030 00:00'') (js ''02/01/2030 00:00'')])))
     = [Finalizada]
   \<and> list_all2 (\<lambda>c c'. rank (status c) \<le> rank (status c')
        \<and> (status c = Finalizada \<longrightarrow> status c' = Finalizada)
        \<and> (status c = Activa \<longrightarrow> status c' \<noteq> En_espera))
      [sample_campaign Activa (js ''01/01/2030 00:00'') (js ''02/01/2030 00:00'')]
      (getCampaigns (passes clock_table [1893542400000, 1704067200000]
        (Some [sample_campaign Activa (js ''01/01/2030 00:00'') (js ''02/01/2030 00:00'')])))"
  using C8_status_never_regresses [of
      "Some [sample_campaign Activa (js ''01/01/2030 00:00'') (js ''02/01/2030 00:00'')]"
      clock_table "[1893542400000, 1704067200000]"]
  by (simp add: updateCampaignStatuses_def reconcile_def reconcile_utils_def saveCampaigns_def
      newStatus_def getCampaigns_def sample_campaign_def clock_table_def num_ge_def js_def
      Let_def)

section \<open>Properties of the phone and name functions\<close>

lemma digit_class: "in_class [Esc_d] c = (0x30 \<le> c \<and> c \<le> 0x39)"
  by (simp add: in_class_def)

lemma remove_outside_append:
  "remove_outside items (xs @ ys) = remove_outside items xs @ remove_outside items ys"
  by (simp add: remove_outside_def)

lemma remove_outside_idem:
  "remove_outside items (remove_outside items s) = remove_outside items s"
  by (simp add: remove_outside_def)

lemma remove_outside_take:
  "remove_outside items (take n (remove_outside items s)) = take n (remove_outside items s)"
  unfolding remove_outside_def
  by (rule filter_True) (auto dest: in_set_takeD)

lemma remove_outside_drop:
  "remove_outside items (drop n (remove_outside items s)) = drop n (remove_outside items s)"
  unfolding remove_outside_def
  by (rule filter_True) (auto dest: in_set_dropD)

lemma punct_digits:
  "remove_outside [Esc_d] (js ''('') = []"
  "remove_outside [Esc_d] (js '') '') = []"
  "remove_outside [Esc_d] (js ''-'') = []"
  by (simp_all add: remove_outside_def in_class_def js_def)

lemma digits_formatPhoneNumber:
  "remove_outside [Esc_d] (formatPhoneNumber v) = take 10 (remove_outside [Esc_d] v)"
proof -
  let ?d = "remove_outside [Esc_d] v"
  consider "v = []" | "v \<noteq> []" "length ?d < 4" | "v \<noteq> []" "4 \<le> length ?d" "length ?d < 7"
    | "v \<noteq> []" "7 \<le> length ?d"
    by linarith
  then show ?thesis
  proof cases
    case 1
    then show ?thesis by (simp add: formatPhoneNumber_def remove_outside_def)
  next
    case 2
    then show ?thesis by (simp add: formatPhoneNumber_def Let_def remove_outside_idem)
  next
    case 3
    have "take 3 ?d @ drop 3 ?d = take 10 ?d" using 3 by simp
    with 3 show ?thesis
      by (simp add: formatPhoneNumber_def Let_def remove_outside_append punct_digits
          remove_outside_take remove_outside_drop del: append_take_drop_id)
  next
    case 4
    have "take 3 ?d @ take 3 (drop 3 ?d) @ take 4 (drop 6 ?d) = take 10 ?d"
      using take_add [of 3 7 ?d] take_add [of 3 4 "drop 3 ?d"] by simp
    moreover have "remove_outside [Esc_d] (take 3 (drop 3 ?d)) = take 3 (drop 3 ?d)"
      "remove_outside [Esc_d] (take 4 (drop 6 ?d)) = take 4 (drop 6 ?d)"
      unfolding remove_outside_def
      by (rule filter_True; auto dest!: in_set_takeD in_set_dropD)+
    ultimately show ?thesis using 4
      by (simp add: formatPhoneNumber_def Let_def remove_outside_append punct_digits
          remove_outside_take)
  qed
qed


lemma formatPhoneNumber_cong:
  "a \<noteq> [] \<Longrightarrow> b \<noteq> [] \<Longrightarrow> remove_outside [Esc_d] a = remove_outside [Esc_d] b \<Longrightarrow>
   formatPhoneNumber a = formatPhoneNumber b"
  by (simp add: formatPhoneNumber_def)

lemma formatPhoneNumber_long:
  "v \<noteq> [] \<Longrightarrow> 7 \<le> length (remove_outside [Esc_d] v) \<Longrightarrow>
   formatPhoneNumber v =
     js ''('' @ take 3 (remove_outside [Esc_d] v) @ js '') ''
     @ take 3 (drop 3 (remove_outside [Esc_d] v)) @ js ''-''
     @ take 4 (drop 6 (remove_outside [Esc_d] v))"
  by (simp add: formatPhoneNumber_def Let_def)

lemma formatPhoneNumber_take10:
  assumes v: "v \<noteq> []" and w: "w \<noteq> []"
    and dw: "remove_outside [Esc_d] w = take 10 (remove_outside [Esc_d] v)"
  shows "formatPhoneNumber w = formatPhoneNumber v"
proof (cases "length (remove_outside [Esc_d] v) < 7")
  case True
  then have "take 10 (remove_outside [Esc_d] v) = remove_outside [Esc_d] v" by simp
  then have "remove_outside [Esc_d] w = remove_outside [Esc_d] v" using dw by simp
  then show ?thesis by (rule formatPhoneNumber_cong [OF w v])
next
  case False
  define d where "d = remove_outside [Esc_d] v"
  have long: "7 \<le> length d" using False by (simp add: d_def)
  have dw': "remove_outside [Esc_d] w = take 10 d" using dw by (simp add: d_def)
  have lw: "7 \<le> length (remove_outside [Esc_d] w)" using long by (simp add: dw')
  have parts: "take 3 (take 10 d) = take 3 d"
      "take 3 (drop 3 (take 10 d)) = take 3 (drop 3 d)"
      "take 4 (drop 6 (take 10 d)) = take 4 (drop 6 d)"
    by (simp_all add: drop_take)
  have "formatPhoneNumber w =
      js ''('' @ take 3 (take 10 d) @ js '') '' @ take 3 (drop 3 (take 10 d)) @ js ''-''
      @ take 4 (drop 6 (take 10 d))"
    using formatPhoneNumber_long [OF w lw] by (simp only: dw')
  also have "\<dots> = js ''('' @ take 3 d @ js '') '' @ take 3 (drop 3 d) @ js ''-''
      @ take 4 (drop 6 d)"
    by (simp only: parts)
  also have "\<dots> = formatPhoneNumber v"
    using formatPhoneNumber_long [OF v] long by (simp only: d_def)
  finally show ?thesis .
qed

lemma formatPhoneNumber_Nil: "formatPhoneNumber [] = []"
  by (simp add: formatPhoneNumber_def)

lemma formatPhoneNumber_idem:
  "formatPhoneNumber (formatPhoneNumber v) = formatPhoneNumber v"
proof (cases "v = []")
  case True
  then show ?thesis by (simp add: formatPhoneNumber_Nil)
next
  case v: False
  show ?thesis
  proof (cases "formatPhoneNumber v = []")
    case True
    then show ?thesis by (simp add: formatPhoneNumber_Nil)
  next
    case False
    show ?thesis
      by (rule formatPhoneNumber_take10 [OF v False]) (rule digits_formatPhoneNumber)
  qed
qed

lemma formatPhoneNumber_no_digits:
  assumes "remove_outside [Esc_d] b = []"
  shows "formatPhoneNumber b = []"
proof (cases "b = []")
  case True
  then show ?thesis by (simp add: formatPhoneNumber_Nil)
next
  case False
  then show ?thesis using assms by (simp add: formatPhoneNumber_def)
qed

lemma formatted_eq_iff:
  assumes a: "formatPhoneNumber a = a" and b: "formatPhoneNumber b = b"
  shows "a = b \<longleftrightarrow> remove_outside [Esc_d] a = remove_outside [Esc_d] b"
proof
  assume "a = b" then show "remove_outside [Esc_d] a = remove_outside [Esc_d] b" by simp
next
  assume d: "remove_outside [Esc_d] a = remove_outside [Esc_d] b"
  show "a = b"
  proof (cases "a = []")
    case True
    then have "remove_outside [Esc_d] b = []" using d by (simp add: remove_outside_def)
    then have "formatPhoneNumber b = []" by (rule formatPhoneNumber_no_digits)
    then show ?thesis using b True by simp
  next
    case na: False
    show ?thesis
    proof (cases "b = []")
      case True
      then have "remove_outside [Esc_d] a = []" using d by (simp add: remove_outside_def)
      then have "formatPhoneNumber a = []" by (rule formatPhoneNumber_no_digits)
      then show ?thesis using a True by simp
    next
      case False
      have "formatPhoneNumber a = formatPhoneNumber b"
        by (rule formatPhoneNumber_cong [OF na False d])
      then show ?thesis using a b by simp
    qed
  qed
qed

lemma test_plus_iff: "test_plus items s \<longleftrightarrow> s \<noteq> [] \<and> (\<forall>c \<in> set s. in_class items c)"
  by (induction s) auto

lemma in_name_class:
  "in_class name_class c \<longleftrightarrow>
     c \<in> {0x61..0x7A} \<union> {0x41..0x5A}
       \<union> {0xE1, 0xE9, 0xED, 0xF3, 0xFA, 0xF1, 0xC1, 0xC9, 0xCD, 0xD3, 0xDA, 0xD1}
       \<union> {c. isWhiteSpace c}"
  unfolding in_class_def name_class_def
  by (simp only: list_ex_Cons_iff list_ex_Nil_iff item_matches.simps Un_iff atLeastAtMost_iff
      insert_iff empty_iff mem_Collect_eq) blast

lemmas phone_eval = js_def remove_outside_def in_class_def isValidPhoneNumber_def
  formatPhoneNumber_def

lemma test_plus_name_class:
  "test_plus name_class s \<longleftrightarrow> s \<noteq> [] \<and> set s \<subseteq> name_chars"
  unfolding test_plus_iff subset_iff in_name_class [symmetric] by blast

lemma errors_handleAddPerson:
  "nameError (fst (snd (handleAddPerson campaigns uuid campaignId ui st)))
     = (\<not> test_plus name_class (newPersonName ui))"
  "lastNameError (fst (snd (handleAddPerson campaigns uuid campaignId ui st)))
     = (\<not> test_plus name_class (newPersonLastName ui))"
  by (simp_all add: handleAddPerson_def Let_def split: option.splits)

lemma errors_addPerson:
  "personNameError (snd (addPerson uuid fs)) = (\<not> test_plus name_class (personName fs))"
  "personLastNameError (snd (addPerson uuid fs)) = (\<not> test_plus name_class (personLastName fs))"
  by (simp_all add: addPerson_def Let_def)

lemma handleAddPerson_invalid:
  "\<not> (test_plus name_class (newPersonName ui) \<and> test_plus name_class (newPersonLastName ui)) \<Longrightarrow>
   fst (handleAddPerson campaigns uuid campaignId ui st) = None
   \<and> snd (snd (handleAddPerson campaigns uuid campaignId ui st)) = st"
  by (auto simp: handleAddPerson_def Let_def)

lemma addPerson_invalid:
  "\<not> (test_plus name_class (personName fs) \<and> test_plus name_class (personLastName fs)) \<Longrightarrow>
   fst (addPerson uuid fs) = None \<and> f_people (snd (addPerson uuid fs)) = f_people fs"
  by (auto simp: addPerson_def Let_def)

lemma handleAddPerson_valid:
  "test_plus name_class (newPersonName ui) \<Longrightarrow> test_plus name_class (newPersonLastName ui) \<Longrightarrow>
   isValidPhoneNumber (newPersonPhone ui) \<Longrightarrow>
   find (\<lambda>c. c_id c = campaignId) campaigns = Some c \<Longrightarrow>
   \<not> list_ex (\<lambda>p. phone p = newPersonPhone ui) (people c) \<Longrightarrow>
   fst (handleAddPerson campaigns uuid campaignId ui st) = Some CampaignUpdated
   \<and> getCampaigns (snd (snd (handleAddPerson campaigns uuid campaignId ui st)))
     = map (\<lambda>x. if c_id x = c_id c
                then c\<lparr>people := people c @
                        [\<lparr>p_id = uuid, p_name = newPersonName ui,
                          lastName = newPersonLastName ui, phone = newPersonPhone ui\<rparr>]\<rparr>
                else x) campaigns"
  by (simp add: handleAddPerson_def Let_def updateCampaign_def getCampaigns_saveCampaigns)

lemma addPerson_valid:
  "test_plus name_class (personName fs) \<Longrightarrow> test_plus name_class (personLastName fs) \<Longrightarrow>
   isValidPhoneNumber (personPhone fs) \<Longrightarrow>
   \<not> list_ex (\<lambda>p. phone p = personPhone fs) (f_people fs) \<Longrightarrow>
   fst (addPerson uuid fs) = Some PersonAdded
   \<and> f_people (snd (addPerson uuid fs))
     = f_people fs @ [\<lparr>p_id = uuid, p_name = personName fs, lastName = personLastName fs,
                        phone = personPhone fs\<rparr>]"
  by (simp add: addPerson_def Let_def)

lemma sample_panel_fields:
  "newPersonName (sample_panel lastN) = [0x4A, 0x6F, 0x73, 0xE9]"
  "newPersonLastName (sample_panel lastN) = lastN"
  "newPersonPhone (sample_panel lastN) = js ''(555) 765-4321''"
  by (simp_all add: sample_panel_def changeNewPersonPhone_def changeNewPersonLastName_def
      changeNewPersonName_def emptyList_def phone_eval)

lemma sample_form_fields:
  "personName (sample_form firstN) = firstN"
  "personLastName (sample_form firstN) = js ''Perez''"
  "personPhone (sample_form firstN) = js ''(555) 765-4321''"
  "f_people (sample_form firstN) = []"
  by (simp_all add: sample_form_def changePersonPhone_def changePersonLastName_def
      changePersonName_def mount_def effects_def initialState_def Let_def split_beta phone_eval)

lemma sample_campaign_fields:
  "c_id (sample_campaign s a b) = js ''c1''"
  "people (sample_campaign s a b) =
     [\<lparr>p_id = js ''p1'', p_name = js ''Ana'', lastName = js ''Gomez'',
       phone = js ''(555) 990-0000''\<rparr>]"
  by (simp_all add: sample_campaign_def)

section \<open>The claims about the roster\<close>

text \<open>
  C4, as the specification states it: adding a person is rejected as a duplicate exactly
  when the digits of the candidate phone are the digits of the phone of a person of the
  roster. The handlers compare the two strings with \<^verbatim>\<open>===\<close> and strip nothing. In one
  direction: a roster that holds the phone 5551234567 accepts the candidate
  (555) 123-4567, which has the same digits. In the other: the input keeps ten digits, so
  after 55576543218 is typed and added, typing 55576543219, a different number, is
  rejected as a duplicate.
\<close>

theorem C4_digit_comparison_counterexample:
  "digitsOnly (js ''5551234567'') = digitsOnly (js ''(555) 123-4567'')
   \<and> fst (handleAddPerson
        [(sample_campaign Activa (js ''01/01/2024 00:00'') (js ''02/01/2030 00:00''))
           \<lparr>people := [\<lparr>p_id = js ''p1'', p_name = js ''Ana'', lastName = js ''Gomez'',
                        phone = js ''5551234567''\<rparr>]\<rparr>]
        (js ''p2'') (js ''c1'')
        (emptyList\<lparr>newPersonName := js ''Luis'', newPersonLastName := js ''Perez'',
                   newPersonPhone := js ''(555) 123-4567''\<rparr>)
        None) = Some CampaignUpdated
   \<and> digitsOnly (js ''55576543218'') \<noteq> digitsOnly (js ''55576543219'')
   \<and> fst (handleAddPerson
        (getCampaigns (snd (snd (handleAddPerson
           [sample_campaign Activa (js ''01/01/2024 00:00'') (js ''02/01/2030 00:00'')]
           (js ''p2'') (js ''c1'')
           (changeNewPersonPhone (js ''55576543218'')
              (emptyList\<lparr>newPersonName := js ''Luis'', newPersonLastName := js ''Perez''\<rparr>))
           None))))
        (js ''p3'') (js ''c1'')
        (changeNewPersonPhone (js ''55576543219'')
           (emptyList\<lparr>newPersonName := js ''Eva'', newPersonLastName := js ''Ruiz''\<rparr>))
        None) = Some PhoneAlreadyInCampaign"
  by (simp add: handleAddPerson_def changeNewPersonPhone_def emptyList_def updateCampaign_def
      saveCampaigns_def getCampaigns_def sample_campaign_def phone_eval name_class_def isWhiteSpace_def)

text \<open>
  C4, amended: when the name, the last name and the phone are valid and the campaign is
  found, adding is rejected as a duplicate exactly when the candidate phone, the string
  that the input holds after the change handler has formatted it, is equal to the stored
  phone of a person of the roster; the store is then left as it was. When the candidate
  and the stored phones are all strings that \<open>formatPhoneNumber\<close> leaves unchanged, which
  is what the inputs produce, equal strings and equal digits are the same thing.
\<close>

theorem C4_duplicate_is_exact_match:
  assumes "test_plus name_class (newPersonName ui)"
    and "test_plus name_class (newPersonLastName ui)"
    and "isValidPhoneNumber (newPersonPhone ui)"
    and "find (\<lambda>c. c_id c = campaignId) campaigns = Some c"
  shows "(fst (handleAddPerson campaigns uuid campaignId ui st) = Some PhoneAlreadyInCampaign
           \<longleftrightarrow> (\<exists>p \<in> set (people c). phone p = newPersonPhone ui))
    \<and> (fst (handleAddPerson campaigns uuid campaignId ui st) = Some PhoneAlreadyInCampaign
           \<longrightarrow> snd (snd (handleAddPerson campaigns uuid campaignId ui st)) = st)
    \<and> (formatPhoneNumber (newPersonPhone ui) = newPersonPhone ui
         \<and> (\<forall>p \<in> set (people c). formatPhoneNumber (phone p) = phone p)
           \<longrightarrow> ((\<exists>p \<in> set (people c). phone p = newPersonPhone ui)
                 \<longleftrightarrow> (\<exists>p \<in> set (people c). digitsOnly (phone p) = digitsOnly (newPersonPhone ui))))"
proof -
  have run: "handleAddPerson campaigns uuid campaignId ui st =
      (if list_ex (\<lambda>p. phone p = newPersonPhone ui) (people c)
       then (Some PhoneAlreadyInCampaign,
             ui\<lparr>nameError := False, lastNameError := False, phoneError := False\<rparr>, st)
       else (Some CampaignUpdated,
             ui\<lparr>nameError := False, lastNameError := False, phoneError := False,
                newPersonName := [], newPersonLastName := [], newPersonPhone := [],
                addingPersonToCampaign := None\<rparr>,
             updateCampaign campaigns
               (c\<lparr>people := people c @ [\<lparr>p_id = uuid, p_name = newPersonName ui,
                    lastName = newPersonLastName ui, phone = newPersonPhone ui\<rparr>]\<rparr>) st))"
    using assms by (simp add: handleAddPerson_def Let_def)
  have one: "fst (handleAddPerson campaigns uuid campaignId ui st) = Some PhoneAlreadyInCampaign
      \<longleftrightarrow> (\<exists>p \<in> set (people c). phone p = newPersonPhone ui)"
    by (simp add: run list_ex_iff)
  have two: "fst (handleAddPerson campaigns uuid campaignId ui st) = Some PhoneAlreadyInCampaign
      \<longrightarrow> snd (snd (handleAddPerson campaigns uuid campaignId ui st)) = st"
    by (simp add: run)
  have three: "(\<exists>p \<in> set (people c). phone p = newPersonPhone ui)
      \<longleftrightarrow> (\<exists>p \<in> set (people c). digitsOnly (phone p) = digitsOnly (newPersonPhone ui))"
    if "formatPhoneNumber (newPersonPhone ui) = newPersonPhone ui"
      and "\<forall>p \<in> set (people c). formatPhoneNumber (phone p) = phone p"
    using that formatted_eq_iff [of _ "newPersonPhone ui"] by blast
  show ?thesis using one two three by blast
qed

text \<open>
  The scenario of the claim: 555 123 4567 is typed and added, then 5551234567 is typed;
  the second is rejected and the store is not written.
\<close>

theorem C4_duplicate_is_exact_match_witness:
  "getCampaigns (snd (snd (handleAddPerson
      [sample_campaign Activa (js ''01/01/2024 00:00'') (js ''02/01/2030 00:00'')]
      (js ''p2'') (js ''c1'')
      (changeNewPersonPhone (js ''555 123 4567'')
         (emptyList\<lparr>newPersonName := js ''Luis'', newPersonLastName := js ''Perez''\<rparr>))
      None)))
   = [(sample_campaign Activa (js ''01/01/2024 00:00'') (js ''02/01/2030 00:00''))
        \<lparr>people := [\<lparr>p_id = js ''p1'', p_name = js ''Ana'', lastName = js ''Gomez'',
                     phone = js ''(555) 990-0000''\<rparr>,
                   \<lparr>p_id = js ''p2'', p_name = js ''Luis'', lastName = js ''Perez'',
                     phone = js ''(555) 123-4567''\<rparr>]\<rparr>]
   \<and> handleAddPerson
      [(sample_campaign Activa (js ''01/01/2024 00:00'') (js ''02/01/2030 00:00''))
        \<lparr>people := [\<lparr>p_id = js ''p1'', p_name = js ''Ana'', lastName = js ''Gomez'',
                     phone = js ''(555) 990-0000''\<rparr>,
                   \<lparr>p_id = js ''p2'', p_name = js ''Luis'', lastName = js ''Perez'',
                     phone = js ''(555) 123-4567''\<rparr>]\<rparr>]
      (js ''p3'') (js ''c1'')
      (changeNewPersonPhone (js ''5551234567'')
         (emptyList\<lparr>newPersonName := js ''Eva'', newPersonLastName := js ''Ruiz''\<rparr>))
      None
   = (Some PhoneAlreadyInCampaign,
      changeNewPersonPhone (js ''5551234567'')
         (emptyList\<lparr>newPersonName := js ''Eva'', newPersonLastName := js ''Ruiz''\<rparr>),
      None)"
  using C4_duplicate_is_exact_match [of
      "changeNewPersonPhone (js ''5551234567'')
         (emptyList\<lparr>newPersonName := js ''Eva'', newPersonLastName := js ''Ruiz''\<rparr>)"
      "js ''c1''"
      "[(sample_campaign Activa (js ''01/01/2024 00:00'') (js ''02/01/2030 00:00''))
        \<lparr>people := [\<lparr>p_id = js ''p1'', p_name = js ''Ana'', lastName = js ''Gomez'',
                     phone = js ''(555) 990-0000''\<rparr>,
                   \<lparr>p_id = js ''p2'', p_name = js ''Luis'', lastName = js ''Perez'',
                     phone = js ''(555) 123-4567''\<rparr>]\<rparr>]"
      "(sample_campaign Activa (js ''01/01/2024 00:00'') (js ''02/01/2030 00:00''))
        \<lparr>people := [\<lparr>p_id = js ''p1'', p_name = js ''Ana'', lastName = js ''Gomez'',
                     phone = js ''(555) 990-0000''\<rparr>,
                   \<lparr>p_id = js ''p2'', p_name = js ''Luis'', lastName = js ''Perez'',
                     phone = js ''(555) 123-4567''\<rparr>]\<rparr>"
      "js ''p3''" None]
  by (simp add: handleAddPerson_def changeNewPersonPhone_def emptyList_def updateCampaign_def
      saveCampaigns_def getCampaigns_def sample_campaign_def phone_eval name_class_def
      isWhiteSpace_def)

text \<open>
  C5, as the specification states it: the stored phone is the text the user typed, and
  the grouping is for display only. The change handler of the phone input groups the
  digits before they reach the state, and the state is what is stored: typing 5551234567
  stores (555) 123-4567, in the panel of a campaign card and in the form.
\<close>

theorem C5_stored_as_typed_counterexample:
  "map (map phone) (map people (getCampaigns (snd (snd (handleAddPerson
      [sample_campaign Activa (js ''01/01/2024 00:00'') (js ''02/01/2030 00:00'')]
      (js ''p2'') (js ''c1'')
      (changeNewPersonPhone (js ''5551234567'')
         (emptyList\<lparr>newPersonName := js ''Luis'', newPersonLastName := js ''Perez''\<rparr>))
      None)))))
   = [[js ''(555) 990-0000'', js ''(555) 123-4567'']]
   \<and> js ''(555) 123-4567'' \<noteq> js ''5551234567''
   \<and> map phone (f_people (snd (addPerson (js ''p1'')
        (changePersonPhone (js ''5551234567'')
          (changePersonLastName (js ''Perez'')
            (changePersonName (js ''Luis'') (mount clock_table 1704067200000 None)))))))
     = [js ''(555) 123-4567'']"
  by (simp add: handleAddPerson_def changeNewPersonPhone_def emptyList_def updateCampaign_def
      saveCampaigns_def getCampaigns_def sample_campaign_def phone_eval name_class_def
      isWhiteSpace_def addPerson_def changePersonPhone_def changePersonLastName_def
      changePersonName_def mount_def effects_def initialState_def updateStartDate_def
      validateDates_def)

text \<open>
  C5, amended: for every person added, in the panel of a card or in the form, the stored
  phone is \<open>formatPhoneNumber\<close> of the text typed, which keeps the first ten digits
  grouped as (AAA) BBB-CCCC; formatting the stored value again for display changes
  nothing.
\<close>

theorem C5_stored_phone_is_formatted:
  assumes "find (\<lambda>c. c_id c = campaignId) campaigns = Some c"
  shows "(fst (handleAddPerson campaigns uuid campaignId (changeNewPersonPhone typed ui) st)
            = Some CampaignUpdated
          \<longrightarrow> getCampaigns (snd (snd
                 (handleAddPerson campaigns uuid campaignId (changeNewPersonPhone typed ui) st)))
              = map (\<lambda>x. if c_id x = c_id c
                          then c\<lparr>people := people c @
                                  [\<lparr>p_id = uuid, p_name = newPersonName ui,
                                    lastName = newPersonLastName ui,
                                    phone = formatPhoneNumber typed\<rparr>]\<rparr>
                          else x) campaigns)
    \<and> (fst (addPerson uuid (changePersonPhone typed fs)) = Some PersonAdded
          \<longrightarrow> f_people (snd (addPerson uuid (changePersonPhone typed fs)))
              = f_people fs @ [\<lparr>p_id = uuid, p_name = personName fs,
                                 lastName = personLastName fs,
                                 phone = formatPhoneNumber typed\<rparr>])
    \<and> formatPhoneNumber (formatPhoneNumber typed) = formatPhoneNumber typed"
proof -
  have list: "getCampaigns (snd (snd
        (handleAddPerson campaigns uuid campaignId (changeNewPersonPhone typed ui) st)))
      = map (\<lambda>x. if c_id x = c_id c
                 then c\<lparr>people := people c @
                         [\<lparr>p_id = uuid, p_name = newPersonName ui,
                           lastName = newPersonLastName ui,
                           phone = formatPhoneNumber typed\<rparr>]\<rparr>
                 else x) campaigns"
    if "fst (handleAddPerson campaigns uuid campaignId (changeNewPersonPhone typed ui) st)
          = Some CampaignUpdated"
    using that assms
    by (simp add: handleAddPerson_def changeNewPersonPhone_def Let_def updateCampaign_def
        saveCampaigns_def getCampaigns_def split: if_splits)
  have form: "f_people (snd (addPerson uuid (changePersonPhone typed fs)))
      = f_people fs @ [\<lparr>p_id = uuid, p_name = personName fs, lastName = personLastName fs,
                         phone = formatPhoneNumber typed\<rparr>]"
    if "fst (addPerson uuid (changePersonPhone typed fs)) = Some PersonAdded"
    using that
    by (simp add: addPerson_def changePersonPhone_def Let_def split: if_splits)
  show ?thesis using list form formatPhoneNumber_idem by blast
qed

theorem C5_stored_phone_is_formatted_witness:
  "getCampaigns (snd (snd (handleAddPerson
      [sample_campaign Activa (js ''01/01/2024 00:00'') (js ''02/01/2030 00:00'')]
      (js ''p2'') (js ''c1'')
      (changeNewPersonPhone (js ''555 123 4567'')
         (emptyList\<lparr>newPersonName := js ''Luis'', newPersonLastName := js ''Perez''\<rparr>))
      None)))
   = [(sample_campaign Activa (js ''01/01/2024 00:00'') (js ''02/01/2030 00:00''))
        \<lparr>people := [\<lparr>p_id = js ''p1'', p_name = js ''Ana'', lastName = js ''Gomez'',
                     phone = js ''(555) 990-0000''\<rparr>,
                   \<lparr>p_id = js ''p2'', p_name = js ''Luis'', lastName = js ''Perez'',
                     phone = js ''(555) 123-4567''\<rparr>]\<rparr>]
   \<and> map phone (f_people (snd (addPerson (js ''p2'')
        (changePersonPhone (js ''555 123 4567'')
          (changePersonLastName (js ''Perez'')
            (changePersonName (js ''Luis'') (mount clock_table 1704067200000 None)))))))
     = [js ''(555) 123-4567'']"
  using C5_stored_phone_is_formatted [of "js ''c1''"
      "[sample_campaign Activa (js ''01/01/2024 00:00'') (js ''02/01/2030 00:00'')]"
      "sample_campaign Activa (js ''01/01/2024 00:00'') (js ''02/01/2030 00:00'')"
      "js ''p2''" "js ''555 123 4567''"
      "emptyList\<lparr>newPersonName := js ''Luis'', newPersonLastName := js ''Perez''\<rparr>"
      None
      "changePersonLastName (js ''Perez'')
         (changePersonName (js ''Luis'') (mount clock_table 1704067200000 None))"]
  by (simp add: handleAddPerson_def changeNewPersonPhone_def emptyList_def updateCampaign_def
      saveCampaigns_def getCampaigns_def sample_campaign_def phone_eval name_class_def
      isWhiteSpace_def addPerson_def changePersonPhone_def changePersonLastName_def
      changePersonName_def mount_def effects_def initialState_def updateStartDate_def
      validateDates_def)

text \<open>
  C6, as the specification states it: a name is accepted exactly when its trimmed text is
  one or more letters or spaces, for every Unicode letter. The tests list their letters:
  u with diaeresis (U+00FC) is a letter and is refused, the field error is set and nothing
  is saved. Nor is anything trimmed: three spaces, whose trimmed text is empty, pass.
\<close>

theorem C6_unicode_letters_counterexample:
  "latin1_letter 0xFC \<and> trim [0xFC] = [0xFC]
   \<and> \<not> test_plus name_class [0xFC]
   \<and> nameError (fst (snd (handleAddPerson
        [sample_campaign Activa (js ''01/01/2024 00:00'') (js ''02/01/2030 00:00'')]
        (js ''p2'') (js ''c1'')
        (changeNewPersonPhone (js ''5551234567'')
          (changeNewPersonLastName (js ''Perez'') (changeNewPersonName [0xFC] emptyList)))
        None)))
   \<and> handleAddPerson
        [sample_campaign Activa (js ''01/01/2024 00:00'') (js ''02/01/2030 00:00'')]
        (js ''p2'') (js ''c1'')
        (changeNewPersonPhone (js ''5551234567'')
          (changeNewPersonLastName (js ''Perez'') (changeNewPersonName [0xFC] emptyList)))
        None
     = (None,
        (changeNewPersonPhone (js ''5551234567'')
          (changeNewPersonLastName (js ''Perez'') (changeNewPersonName [0xFC] emptyList)))
          \<lparr>nameError := True\<rparr>,
        None)
   \<and> trim (js ''   '') = [] \<and> test_plus name_class (js ''   '')"
  by (simp add: handleAddPerson_def changeNewPersonPhone_def changeNewPersonLastName_def
      changeNewPersonName_def emptyList_def latin1_letter_def trim_def phone_eval
      name_class_def isWhiteSpace_def sample_campaign_def)

text \<open>
  C6, amended: for every name and last name, the validator of the panel and the
  validator of the form accept the text exactly when it is not empty, as typed and
  untrimmed, and each of its code units is an ASCII letter, one of the twelve accented
  letters of the class, or white space; otherwise the error of that field is set. When the
  name or the last name is refused, no toast is shown and nothing is added: the store,
  and in the form the list of people, stay as they were. When the name, the last name and
  the phone are accepted, the campaign is found and the phone is not in its roster, the
  person is added with the name and the last name as typed.
\<close>

theorem C6_names_match_fixed_class:
  "nameError (fst (snd (handleAddPerson campaigns uuid campaignId ui st)))
     = (\<not> (newPersonName ui \<noteq> [] \<and> set (newPersonName ui) \<subseteq> name_chars))
   \<and> lastNameError (fst (snd (handleAddPerson campaigns uuid campaignId ui st)))
     = (\<not> (newPersonLastName ui \<noteq> [] \<and> set (newPersonLastName ui) \<subseteq> name_chars))
   \<and> personNameError (snd (addPerson uuid fs))
     = (\<not> (personName fs \<noteq> [] \<and> set (personName fs) \<subseteq> name_chars))
   \<and> personLastNameError (snd (addPerson uuid fs))
     = (\<not> (personLastName fs \<noteq> [] \<and> set (personLastName fs) \<subseteq> name_chars))
   \<and> (\<not> ((newPersonName ui \<noteq> [] \<and> set (newPersonName ui) \<subseteq> name_chars)
           \<and> (newPersonLastName ui \<noteq> [] \<and> set (newPersonLastName ui) \<subseteq> name_chars))
        \<longrightarrow> fst (handleAddPerson campaigns uuid campaignId ui st) = None
          \<and> snd (snd (handleAddPerson campaigns uuid campaignId ui st)) = st)
   \<and> (\<not> ((personName fs \<noteq> [] \<and> set (personName fs) \<subseteq> name_chars)
           \<and> (personLastName fs \<noteq> [] \<and> set (personLastName fs) \<subseteq> name_chars))
        \<longrightarrow> fst (addPerson uuid fs) = None
          \<and> f_people (snd (addPerson uuid fs)) = f_people fs)
   \<and> ((newPersonName ui \<noteq> [] \<and> set (newPersonName ui) \<subseteq> name_chars)
        \<and> (newPersonLastName ui \<noteq> [] \<and> set (newPersonLastName ui) \<subseteq> name_chars)
        \<and> isValidPhoneNumber (newPersonPhone ui)
        \<and> find (\<lambda>c. c_id c = campaignId) campaigns = Some c
        \<and> \<not> list_ex (\<lambda>p. phone p = newPersonPhone ui) (people c)
        \<longrightarrow> fst (handleAddPerson campaigns uuid campaignId ui st) = Some CampaignUpdated
          \<and> getCampaigns (snd (snd (handleAddPerson campaigns uuid campaignId ui st)))
            = map (\<lambda>x. if c_id x = c_id c
                       then c\<lparr>people := people c @
                               [\<lparr>p_id = uuid, p_name = newPersonName ui,
                                 lastName = newPersonLastName ui,
                                 phone = newPersonPhone ui\<rparr>]\<rparr>
                       else x) campaigns)
   \<and> ((personName fs \<noteq> [] \<and> set (personName fs) \<subseteq> name_chars)
        \<and> (personLastName fs \<noteq> [] \<and> set (personLastName fs) \<subseteq> name_chars)
        \<and> isValidPhoneNumber (personPhone fs)
        \<and> \<not> list_ex (\<lambda>p. phone p = personPhone fs) (f_people fs)
        \<longrightarrow> fst (addPerson uuid fs) = Some PersonAdded
          \<and> f_people (snd (addPerson uuid fs))
            = f_people fs @ [\<lparr>p_id = uuid, p_name = personName fs,
                               lastName = personLastName fs, phone = personPhone fs\<rparr>])"
proof -
  note flags = errors_handleAddPerson [of campaigns uuid campaignId ui st]
    errors_addPerson [of uuid fs]
  note refused = handleAddPerson_invalid [of ui campaigns uuid campaignId st]
    addPerson_invalid [of fs uuid]
  note accepted = handleAddPerson_valid [of ui campaignId campaigns c uuid st]
    addPerson_valid [of fs uuid]
  show ?thesis
    unfolding test_plus_name_class [symmetric]
    using flags refused accepted by blast
qed

text \<open>
  The concrete case. With the last name M, U+00FC, l, l, e, r (u with diaeresis) the
  panel sets the error of the last name, shows no toast and leaves the store as it was;
  with the name U+00FC alone the form sets the error of the name and adds nobody. With
  the name J, o, s, U+00E9 and the last name G, U+00F3, m, e, z, both accented within
  the class, the person is added and saved.
\<close>

theorem C6_names_match_fixed_class_witness:
  "fst (handleAddPerson
          [sample_campaign Activa (js ''01/01/2024 00:00'') (js ''02/01/2030 00:00'')]
          (js ''p2'') (js ''c1'') (sample_panel [0x4D, 0xFC, 0x6C, 0x6C, 0x65, 0x72])
          (Some [sample_campaign Activa (js ''01/01/2024 00:00'') (js ''02/01/2030 00:00'')]))
     = None
   \<and> snd (snd (handleAddPerson
          [sample_campaign Activa (js ''01/01/2024 00:00'') (js ''02/01/2030 00:00'')]
          (js ''p2'') (js ''c1'') (sample_panel [0x4D, 0xFC, 0x6C, 0x6C, 0x65, 0x72])
          (Some [sample_campaign Activa (js ''01/01/2024 00:00'') (js ''02/01/2030 00:00'')])))
     = Some [sample_campaign Activa (js ''01/01/2024 00:00'') (js ''02/01/2030 00:00'')]
   \<and> lastNameError (fst (snd (handleAddPerson
          [sample_campaign Activa (js ''01/01/2024 00:00'') (js ''02/01/2030 00:00'')]
          (js ''p2'') (js ''c1'') (sample_panel [0x4D, 0xFC, 0x6C, 0x6C, 0x65, 0x72])
          (Some [sample_campaign Activa (js ''01/01/2024 00:00'') (js ''02/01/2030 00:00'')]))))
   \<and> personNameError (snd (addPerson (js ''p2'') (sample_form [0xFC])))
   \<and> fst (addPerson (js ''p2'') (sample_form [0xFC])) = None
   \<and> f_people (snd (addPerson (js ''p2'') (sample_form [0xFC]))) = []
   \<and> fst (handleAddPerson
          [sample_campaign Activa (js ''01/01/2024 00:00'') (js ''02/01/2030 00:00'')]
          (js ''p2'') (js ''c1'') (sample_panel [0x47, 0xF3, 0x6D, 0x65, 0x7A])
          (Some [sample_campaign Activa (js ''01/01/2024 00:00'') (js ''02/01/2030 00:00'')]))
     = Some CampaignUpdated
   \<and> getCampaigns (snd (snd (handleAddPerson
          [sample_campaign Activa (js ''01/01/2024 00:00'') (js ''02/01/2030 00:00'')]
          (js ''p2'') (js ''c1'') (sample_panel [0x47, 0xF3, 0x6D, 0x65, 0x7A])
          (Some [sample_campaign Activa (js ''01/01/2024 00:00'') (js ''02/01/2030 00:00'')]))))
     = [(sample_campaign Activa (js ''01/01/2024 00:00'') (js ''02/01/2030 00:00''))
          \<lparr>people :=
             [\<lparr>p_id = js ''p1'', p_name = js ''Ana'', lastName = js ''Gomez'',
               phone = js ''(555) 990-0000''\<rparr>,
              \<lparr>p_id = js ''p2'', p_name = [0x4A, 0x6F, 0x73, 0xE9],
               lastName = [0x47, 0xF3, 0x6D, 0x65, 0x7A],
               phone = js ''(555) 765-4321''\<rparr>]\<rparr>]
   \<and> fst (addPerson (js ''p2'') (sample_form [0x4A, 0x6F, 0x73, 0xE9])) = Some PersonAdded
   \<and> f_people (snd (addPerson (js ''p2'') (sample_form [0x4A, 0x6F, 0x73, 0xE9])))
     = [\<lparr>p_id = js ''p2'', p_name = [0x4A, 0x6F, 0x73, 0xE9], lastName = js ''Perez'',
         phone = js ''(555) 765-4321''\<rparr>]"
  using
    C6_names_match_fixed_class [where
      campaigns = "[sample_campaign Activa (js ''01/01/2024 00:00'') (js ''02/01/2030 00:00'')]"
      and uuid = "js ''p2''" and campaignId = "js ''c1''"
      and ui = "sample_panel [0x4D, 0xFC, 0x6C, 0x6C, 0x65, 0x72]"
      and st = "Some [sample_campaign Activa (js ''01/01/2024 00:00'') (js ''02/01/2030 00:00'')]"
      and fs = "sample_form [0xFC]"
      and c = "sample_campaign Activa (js ''01/01/2024 00:00'') (js ''02/01/2030 00:00'')"]
    C6_names_match_fixed_class [where
      campaigns = "[sample_campaign Activa (js ''01/01/2024 00:00'') (js ''02/01/2030 00:00'')]"
      and uuid = "js ''p2''" and campaignId = "js ''c1''"
      and ui = "sample_panel [0x47, 0xF3, 0x6D, 0x65, 0x7A]"
      and st = "Some [sample_campaign Activa (js ''01/01/2024 00:00'') (js ''02/01/2030 00:00'')]"
      and fs = "sample_form [0x4A, 0x6F, 0x73, 0xE9]"
      and c = "sample_campaign Activa (js ''01/01/2024 00:00'') (js ''02/01/2030 00:00'')"]
  by (simp add: sample_panel_fields sample_form_fields sample_campaign_fields
      isWhiteSpace_def js_def isValidPhoneNumber_def remove_outside_def in_class_def)

section \<open>Properties of the handlers\<close>


lemma handleDeletePerson_finished:
  "find (\<lambda>c. c_id c = campaignId) campaigns = Some c \<Longrightarrow> status c = Finalizada \<Longrightarrow>
   handleDeletePerson campaigns campaignId personId ui st = (Some NoRemovalWhenFinished, ui, st)"
  by (simp add: handleDeletePerson_def)

lemma handleDeletePerson_last:
  "find (\<lambda>c. c_id c = campaignId) campaigns = Some c \<Longrightarrow> status c \<noteq> Finalizada \<Longrightarrow>
   length (people c) \<le> 1 \<Longrightarrow>
   handleDeletePerson campaigns campaignId personId ui st = (Some NoRemovalOfLastPerson, ui, st)"
  by (simp add: handleDeletePerson_def)

lemma handleDelete_not_waiting:
  "status c \<noteq> En_espera \<Longrightarrow> handleDelete c ui st = (Some DeleteOnlyWaiting, ui, st)"
  by (simp add: handleDelete_def)

lemma handleFinish_succeeds_iff:
  "fst (handleFinish campaigns ident ui st) = Some CampaignFinished
     \<longleftrightarrow> (\<exists>c. find (\<lambda>c. c_id c = ident) campaigns = Some c \<and> status c = Activa)"
  by (cases "find (\<lambda>c. c_id c = ident) campaigns") (auto simp: handleFinish_def)

lemma handleFinish_rejected:
  "fst (handleFinish campaigns ident ui st) \<noteq> Some CampaignFinished \<Longrightarrow>
   handleFinish campaigns ident ui st = (Some FinishOnlyActive, ui, st)"
  by (cases "find (\<lambda>c. c_id c = ident) campaigns") (auto simp: handleFinish_def split: if_splits)

lemma find_map_status:
  "find (\<lambda>c. c_id c = ident) (map (\<lambda>c. c\<lparr>status := s\<rparr>) campaigns)
     = map_option (\<lambda>c. c\<lparr>status := s\<rparr>) (find (\<lambda>c. c_id c = ident) campaigns)"
  by (induction campaigns) simp_all

lemma handleAddPerson_ignores_status:
  "fst (handleAddPerson (map (\<lambda>c. c\<lparr>status := s\<rparr>) campaigns) uuid campaignId ui st)
     = fst (handleAddPerson campaigns uuid campaignId ui st)"
  by (simp add: handleAddPerson_def Let_def find_map_status split: option.splits)

lemma handleSubmit_edit_roster:
  assumes "handleSubmit formatDate uuid now (Some c) fs st = Some (Some t, st')"
  shows "list_all2 (\<lambda>x x'. if c_id x = c_id c then people x' = people c @ f_people fs else x' = x)
           (getCampaigns st) (getCampaigns st')"
  using assms
  by (auto simp: handleSubmit_def Let_def getCampaigns_saveCampaigns list_all2_map2
      list_all2_same split: if_splits option.splits)

lemma mount_edit_people: "f_people (mount parseDate now (Some c)) = people c"
  by (simp add: mount_def effects_def initialState_def Let_def split_beta)

lemma handleSubmit_edit_doubles:
  assumes "handleSubmit formatDate uuid now (Some c) (mount parseDate now (Some c)) st
             = Some (Some t, st')"
  shows "list_all2 (\<lambda>x x'. if c_id x = c_id c then people x' = people c @ people c else x' = x)
           (getCampaigns st) (getCampaigns st')"
  using handleSubmit_edit_roster [OF assms] by (simp only: mount_edit_people)

lemma mount_create_people: "f_people (mount parseDate now None) = []"
  by (simp add: mount_def effects_def initialState_def Let_def split_beta)

section \<open>The roster invariant\<close>
































section \<open>The claims about the lifecycle\<close>




text \<open>
  C7: a finished campaign refuses add-person, remove-person and delete, finish succeeds
  only on an active campaign and delete only on a waiting one. \<open>handleDeletePerson\<close>,
  \<open>handleDelete\<close> and \<open>handleFinish\<close> test the status (the lemmas above);
  \<open>handleAddPerson\<close> does not, and only the button that opens its panel depends on
  the status. With the panel opened on an active campaign, a reconciliation after the end
  date finishes the campaign, the panel stays open, and the person is added to the
  finished campaign and saved, with the toast of a successful update.
\<close>

theorem C7_add_person_to_finished_campaign:
  "addingPersonToCampaign
     (changeNewPersonPhone (js ''5557654321'') (changeNewPersonLastName (js ''Perez'')
        (changeNewPersonName (js ''Luis'')
          (openAddPerson
             (sample_campaign Activa (js ''01/01/2024 00:00'') (js ''02/01/2024 00:00''))
             emptyList))))
    = Some (sample_campaign Activa (js ''01/01/2024 00:00'') (js ''02/01/2024 00:00''))
   \<and> queryFn clock_table 1893456000000
        (Some [sample_campaign Activa (js ''01/01/2024 00:00'') (js ''02/01/2024 00:00'')])
    = ([sample_campaign Finalizada (js ''01/01/2024 00:00'') (js ''02/01/2024 00:00'')],
       Some [sample_campaign Finalizada (js ''01/01/2024 00:00'') (js ''02/01/2024 00:00'')])
   \<and> handleAddPerson
       [sample_campaign Finalizada (js ''01/01/2024 00:00'') (js ''02/01/2024 00:00'')]
       (js ''p2'') (js ''c1'')
       (changeNewPersonPhone (js ''5557654321'') (changeNewPersonLastName (js ''Perez'')
          (changeNewPersonName (js ''Luis'')
            (openAddPerson
               (sample_campaign Activa (js ''01/01/2024 00:00'') (js ''02/01/2024 00:00''))
               emptyList))))
       (Some [sample_campaign Finalizada (js ''01/01/2024 00:00'') (js ''02/01/2024 00:00'')])
    = (Some CampaignUpdated, emptyList,
       Some [(sample_campaign Finalizada (js ''01/01/2024 00:00'') (js ''02/01/2024 00:00''))
         \<lparr>people := [\<lparr>p_id = js ''p1'', p_name = js ''Ana'', lastName = js ''Gomez'',
                      phone = js ''(555) 990-0000''\<rparr>,
                    \<lparr>p_id = js ''p2'', p_name = js ''Luis'', lastName = js ''Perez'',
                      phone = js ''(555) 765-4321''\<rparr>]\<rparr>])
   \<and> kind CampaignUpdated = None"
  by (simp add: handleAddPerson_def changeNewPersonPhone_def changeNewPersonLastName_def
      changeNewPersonName_def openAddPerson_def emptyList_def updateCampaign_def
      saveCampaigns_def getCampaigns_def sample_campaign_def phone_eval name_class_def
      isWhiteSpace_def queryFn_eq updateCampaignStatuses_def reconcile_def reconcile_utils_def
      newStatus_def clock_table_def num_ge_def)

end
